theory Spec2Isabelle
  imports Main
begin

section \<open>Python primitives used by the plugin registry\<close>

text \<open>
  The registry (\<^verbatim>\<open>_plugin.py\<close>) is Python. Strings are modelled as \<^typ>\<open>string\<close>,
  lists as HOL lists, dictionaries as association lists in insertion order or as maps,
  exceptions as values of a sum type. Every function below is a translation of the
  source function of the same name; Python builtins are translated from their
  documented behaviour (\<^verbatim>\<open>str.split\<close>, \<^verbatim>\<open>str.join\<close>, sequence comparison,
  \<^verbatim>\<open>max\<close> with a key).
\<close>

subsection \<open>\<^verbatim>\<open>str.split(sep)\<close> and \<^verbatim>\<open>sep.join\<close>\<close>

text \<open>
  \<^verbatim>\<open>s.split('.')\<close> cuts at every separator and always returns at least one token:
  \<^verbatim>\<open>''.split('.') == ['']\<close>, \<^verbatim>\<open>'3..1'.split('.') == ['3', '', '1']\<close>.
  \<open>cur\<close> is the token being read, reversed.
\<close>

fun split_from :: "char \<Rightarrow> string \<Rightarrow> string \<Rightarrow> string list" where
  "split_from sep cur [] = [rev cur]"
| "split_from sep cur (c # cs) =
     (if c = sep then rev cur # split_from sep [] cs else split_from sep (c # cur) cs)"

definition py_split :: "char \<Rightarrow> string \<Rightarrow> string list" where
  "py_split sep s = split_from sep [] s"

fun py_join :: "string \<Rightarrow> string list \<Rightarrow> string" where
  "py_join sep [] = []"
| "py_join sep [t] = t"
| "py_join sep (t # u # ts) = t @ sep @ py_join sep (u # ts)"

subsection \<open>Sequence comparison\<close>

text \<open>
  Python compares two sequences (lists, and strings as sequences of characters) by
  looking for the first position where the elements differ (\<^verbatim>\<open>!=\<close>) and comparing
  those two elements; when one sequence is a prefix of the other, the shorter one is
  the smaller. \<open>lt\<close> is the order of the elements.
\<close>

fun py_seq_lt :: "('a \<Rightarrow> 'a \<Rightarrow> bool) \<Rightarrow> 'a list \<Rightarrow> 'a list \<Rightarrow> bool" where
  "py_seq_lt lt [] [] = False"
| "py_seq_lt lt [] (y # ys) = True"
| "py_seq_lt lt (x # xs) [] = False"
| "py_seq_lt lt (x # xs) (y # ys) = (if x = y then py_seq_lt lt xs ys else lt x y)"

text \<open>Characters compare by their code.\<close>

definition char_lt :: "char \<Rightarrow> char \<Rightarrow> bool" where
  "char_lt a b = ((of_char a :: nat) < of_char b)"

definition str_lt :: "string \<Rightarrow> string \<Rightarrow> bool" where
  "str_lt = py_seq_lt char_lt"

section \<open>Versions\<close>

text \<open>
  \<^verbatim>\<open>Plugin.__init__\<close> stores \<^verbatim>\<open>self.version = version.split('.')\<close> and
  \<^verbatim>\<open>get_best_plugin\<close> starts with \<^verbatim>\<open>version = version.split('.')\<close>: a version is
  a list of string tokens. The tests \<^verbatim>\<open>plugin.version == version\<close>,
  \<^verbatim>\<open>plugin.version < version\<close> and the key of \<^verbatim>\<open>max\<close> are Python's comparison
  of lists of strings.
\<close>

type_synonym version = "string list"

definition parse_version :: "string \<Rightarrow> version" where
  "parse_version s = py_split (CHR ''.'') s"

definition version_eq :: "version \<Rightarrow> version \<Rightarrow> bool" where
  "version_eq v w = (v = w)"

definition version_lt :: "version \<Rightarrow> version \<Rightarrow> bool" where
  "version_lt = py_seq_lt str_lt"

subsection \<open>The ordering the specification asks for\<close>

text \<open>
  The specification's words: each dot-separated token is an integer and versions are
  compared element-wise on these integers. \<open>spec_token_value\<close> reads a token in
  decimal; \<open>spec_version_lt\<close> is the element-wise comparison of the values.
\<close>

definition digit_value :: "char \<Rightarrow> nat" where
  "digit_value c = of_char c - 48"

definition is_digit :: "char \<Rightarrow> bool" where
  "is_digit c = (48 \<le> (of_char c :: nat) \<and> (of_char c :: nat) \<le> 57)"

definition decimal_step :: "nat \<Rightarrow> char \<Rightarrow> nat" where
  "decimal_step n c = 10 * n + digit_value c"

definition spec_token_value :: "string \<Rightarrow> nat" where
  "spec_token_value t = foldl decimal_step 0 t"

definition spec_version_lt :: "version \<Rightarrow> version \<Rightarrow> bool" where
  "spec_version_lt v w = py_seq_lt (<) (map spec_token_value v) (map spec_token_value w)"

text \<open>
  Two versions have tokens of the same widths when, position by position as far as both
  go, the tokens are digit strings of the same length.
\<close>

fun same_widths :: "version \<Rightarrow> version \<Rightarrow> bool" where
  "same_widths (a # v) (b # w) =
     (list_all is_digit a \<and> list_all is_digit b \<and> length a = length b \<and> same_widths v w)"
| "same_widths [] w = True"
| "same_widths (a # v) [] = True"


section \<open>Exceptions and the I/O handle\<close>

text \<open>
  The exceptions the code raises or catches. \<open>ScriptException\<close> stands for any
  instance of \<^verbatim>\<open>Exception\<close> raised by plugin code, with its text;
  \<open>UnprintableException\<close> for an instance of \<^verbatim>\<open>Exception\<close> whose
  \<^verbatim>\<open>__str__\<close> raises the given exception; \<open>BaseExceptionOnly\<close> for an exception
  that is not an instance of \<^verbatim>\<open>Exception\<close> (\<^verbatim>\<open>SystemExit\<close>,
  \<^verbatim>\<open>KeyboardInterrupt\<close>), which \<^verbatim>\<open>except Exception\<close> does not catch and a
  bare \<^verbatim>\<open>except:\<close> does.
\<close>

datatype py_exception =
    NotImplementedError
  | ImportError string
  | KeyError string
  | TypeError
  | IndexError
  | IOError
  | YAMLError
  | ScriptException string
  | UnprintableException py_exception
  | BaseExceptionOnly string

fun is_Exception :: "py_exception \<Rightarrow> bool" where
  "is_Exception (BaseExceptionOnly _) = False"
| "is_Exception _ = True"

text \<open>\<^verbatim>\<open>str(e)\<close>, as the \<^verbatim>\<open>%s\<close> of a format evaluates it: the text, or the
  exception that \<^verbatim>\<open>__str__\<close> raises.\<close>

fun exception_str :: "py_exception \<Rightarrow> py_exception + string" where
  "exception_str NotImplementedError = Inr []"
| "exception_str (ImportError m) = Inr m"
| "exception_str (KeyError m) = Inr m"
| "exception_str TypeError = Inr []"
| "exception_str IndexError = Inr []"
| "exception_str IOError = Inr []"
| "exception_str YAMLError = Inr []"
| "exception_str (ScriptException m) = Inr m"
| "exception_str (UnprintableException e) = Inl e"
| "exception_str (BaseExceptionOnly m) = Inr m"

text \<open>
  The I/O handle \<^verbatim>\<open>stdio\<close> is supplied by the caller and may be \<^verbatim>\<open>None\<close>.
  The code reaches it through
  \<^verbatim>\<open>stdio and getattr(stdio, 'warn', print)(msg)\<close>: nothing when the handle is
  falsy, the handle's method when it defines one, \<^verbatim>\<open>print\<close> otherwise. What is
  emitted is returned as a list of outputs. \<open>exception_raises\<close> is the exception
  that the handle's method \<^verbatim>\<open>exception\<close> raises when it is called, if it raises.
\<close>

record stdio =
  has_warn :: bool
  has_exception :: bool
  has_sub_io :: bool
  exception_raises :: "py_exception option"

datatype emitted = Warn string | LogException string | Print string

fun emit_warn :: "stdio option \<Rightarrow> string \<Rightarrow> emitted list" where
  "emit_warn None msg = []"
| "emit_warn (Some io) msg = [if has_warn io then Warn msg else Print msg]"

text \<open>
  The body of the handler of \<^verbatim>\<open>pyScriptPluginExec\<close>,
  \<^verbatim>\<open>stdio and getattr(stdio, 'exception', print)('%s RuntimeError: %s' % (self, e))\<close>,
  where \<open>self_str\<close> is \<^verbatim>\<open>str(self)\<close>. Without a handle nothing is evaluated.
  With one, the method is looked up, the message is formatted, which evaluates
  \<^verbatim>\<open>str(e)\<close>, and the method is called. An exception of \<^verbatim>\<open>str(e)\<close> or of the
  handle's method leaves the handler (\<open>Inl\<close>); otherwise the result is what was emitted.
\<close>

definition log_runtime_error :: "stdio option \<Rightarrow> string \<Rightarrow> py_exception \<Rightarrow> py_exception + emitted list" where
  "log_runtime_error io self_str e =
     (case io of
        None \<Rightarrow> Inr []
      | Some h \<Rightarrow>
          (case exception_str e of
             Inl e' \<Rightarrow> Inl e'
           | Inr text \<Rightarrow>
               if has_exception h
               then (case exception_raises h of
                       Some e' \<Rightarrow> Inl e'
                     | None \<Rightarrow> Inr [LogException (self_str @ '' RuntimeError: '' @ text)])
               else Inr [Print (self_str @ '' RuntimeError: '' @ text)]))"

subsection \<open>\<^verbatim>\<open>os.path.split\<close>, \<^verbatim>\<open>os.path.join\<close>, \<^verbatim>\<open>str.lower\<close>, \<^verbatim>\<open>str.upper\<close>\<close>

definition rstrip_slash :: "string \<Rightarrow> string" where
  "rstrip_slash p = rev (dropWhile (\<lambda>c. c = CHR ''/'') (rev p))"

text \<open>
  \<^verbatim>\<open>posixpath.split\<close>: the tail is what follows the last slash; the head is what
  precedes it, without its trailing slashes unless it consists of slashes only.
\<close>

definition path_split :: "string \<Rightarrow> string \<times> string" where
  "path_split p =
     (let tail = rev (takeWhile (\<lambda>c. c \<noteq> CHR ''/'') (rev p));
          head = take (length p - length tail) p
      in (if head \<noteq> [] \<and> \<not> list_all (\<lambda>c. c = CHR ''/'') head then rstrip_slash head else head,
          tail))"

text \<open>\<^verbatim>\<open>posixpath.join(a, b)\<close> for two components.\<close>

definition path_join :: "string \<Rightarrow> string \<Rightarrow> string" where
  "path_join a b =
     (if b \<noteq> [] \<and> hd b = CHR ''/'' then b
      else if a = [] \<or> last a = CHR ''/'' then a @ b
      else a @ ''/'' @ b)"

text \<open>\<^verbatim>\<open>str.lower\<close> and \<^verbatim>\<open>str.upper\<close> on ASCII letters; other characters are kept.\<close>

definition lower_char :: "char \<Rightarrow> char" where
  "lower_char c =
     (case map_of (zip ''ABCDEFGHIJKLMNOPQRSTUVWXYZ'' ''abcdefghijklmnopqrstuvwxyz'') c of
        Some d \<Rightarrow> d
      | None \<Rightarrow> c)"

definition upper_char :: "char \<Rightarrow> char" where
  "upper_char c =
     (case map_of (zip ''abcdefghijklmnopqrstuvwxyz'' ''ABCDEFGHIJKLMNOPQRSTUVWXYZ'') c of
        Some d \<Rightarrow> d
      | None \<Rightarrow> c)"

definition py_lower :: "string \<Rightarrow> string" where
  "py_lower s = map lower_char s"

section \<open>Plugin artifacts\<close>

text \<open>\<^verbatim>\<open>class PluginType(Enum)\<close>: the members, their names and their values.\<close>

datatype PluginType = START | PARAM | INSTALL | PY_SCRIPT

fun PluginType_name :: "PluginType \<Rightarrow> string" where
  "PluginType_name START = ''START''"
| "PluginType_name PARAM = ''PARAM''"
| "PluginType_name INSTALL = ''INSTALL''"
| "PluginType_name PY_SCRIPT = ''PY_SCRIPT''"

fun PluginType_value :: "PluginType \<Rightarrow> string" where
  "PluginType_value START = ''StartPlugin''"
| "PluginType_value PARAM = ''ParamPlugin''"
| "PluginType_value INSTALL = ''InstallPlugin''"
| "PluginType_value PY_SCRIPT = ''PyScriptPlugin''"

text \<open>
  The plugin classes a loader can hold: the three classes of the module that a
  \<^verbatim>\<open>PluginType\<close> value names, and the classes \<^verbatim>\<open>PyScriptPluginLoader._create_\<close>
  generates, one per script name. \<open>FLAG_FILE\<close> is the class attribute
  \<^verbatim>\<open>FLAG_FILE\<close>; the class \<^verbatim>\<open>PyScriptPlugin\<close> itself inherits \<^verbatim>\<open>None\<close>.
\<close>

datatype plugin_class =
    ParamPluginClass
  | InstallPluginClass
  | PyScriptPluginClass
  | GeneratedScriptClass string

fun FLAG_FILE :: "plugin_class \<Rightarrow> string option" where
  "FLAG_FILE ParamPluginClass = Some ''parameter.yaml''"
| "FLAG_FILE InstallPluginClass = Some ''file_map.yaml''"
| "FLAG_FILE PyScriptPluginClass = None"
| "FLAG_FILE (GeneratedScriptClass script_name) = Some (script_name @ ''.py'')"

record plugin =
  component_name :: string
  plugin_path :: string
  version :: version
  plugin_cls :: plugin_class

text \<open>
  \<^verbatim>\<open>Plugin.__init__\<close>, reached through the constructor of each class.
  \<^verbatim>\<open>PyScriptPlugin.__init__\<close> raises when \<^verbatim>\<open>PLUGIN_COMPONENT_NAME\<close> is unset and
  \<^verbatim>\<open>Plugin.__init__\<close> when \<^verbatim>\<open>PLUGIN_TYPE\<close> or \<^verbatim>\<open>FLAG_FILE\<close> is: the case
  of the class \<^verbatim>\<open>PyScriptPlugin\<close> itself, and of a generated class whose script name
  is empty.
\<close>

definition Plugin_init :: "plugin_class \<Rightarrow> string \<Rightarrow> string \<Rightarrow> string \<Rightarrow> py_exception + plugin" where
  "Plugin_init cls cn pp v =
     (if cls = PyScriptPluginClass \<or> cls = GeneratedScriptClass [] then Inl NotImplementedError
      else Inr \<lparr>component_name = cn, plugin_path = pp, version = parse_version v,
                plugin_cls = cls\<rparr>)"

section \<open>Component loader\<close>

record loader =
  PLUGIN_TYPE_name :: string
  plguin_cls :: plugin_class
  loader_stdio :: "stdio option"
  loader_path :: string
  loader_component_name :: string
  plugins_cache :: "string \<rightharpoonup> plugin"

text \<open>
  \<^verbatim>\<open>glob('%s/*/%s' % (self.path, self.plguin_cls.FLAG_FILE))\<close>: the pattern, as the
  \<^verbatim>\<open>%\<close> operator formats it (\<^verbatim>\<open>None\<close> prints as \<^verbatim>\<open>None\<close>). The file
  system is a parameter, the function \<open>glob\<close> from a pattern to the paths that match.
\<close>

definition flag_pattern :: "loader \<Rightarrow> string" where
  "flag_pattern l =
     loader_path l @ ''/*/'' @ (case FLAG_FILE (plguin_cls l) of None \<Rightarrow> ''None'' | Some f \<Rightarrow> f)"

text \<open>
  The loop of \<^verbatim>\<open>get_plugins\<close>: a cached plugin is reused, a new one is built from
  the directory of the flag file, whose name is the version, and cached. An exception
  of the constructor leaves the loop; the cache keeps what was added before.
\<close>

fun get_plugins_loop ::
  "plugin_class \<Rightarrow> string \<Rightarrow> (string \<rightharpoonup> plugin) \<Rightarrow> string list
     \<Rightarrow> (py_exception + plugin list) \<times> (string \<rightharpoonup> plugin)" where
  "get_plugins_loop cls cn cache [] = (Inr [], cache)"
| "get_plugins_loop cls cn cache (flag_path # rest) =
     (case cache flag_path of
        Some plugin \<Rightarrow>
          (case get_plugins_loop cls cn cache rest of
             (Inl e, cache') \<Rightarrow> (Inl e, cache')
           | (Inr plugins, cache') \<Rightarrow> (Inr (plugin # plugins), cache'))
      | None \<Rightarrow>
          (let path = fst (path_split flag_path);
               version = snd (path_split path)
           in case Plugin_init cls cn path version of
                Inl e \<Rightarrow> (Inl e, cache)
              | Inr plugin \<Rightarrow>
                  (case get_plugins_loop cls cn (cache(flag_path \<mapsto> plugin)) rest of
                     (Inl e, cache') \<Rightarrow> (Inl e, cache')
                   | (Inr plugins, cache') \<Rightarrow> (Inr (plugin # plugins), cache'))))"

definition get_plugins ::
  "(string \<Rightarrow> string list) \<Rightarrow> loader \<Rightarrow> (py_exception + plugin list) \<times> loader" where
  "get_plugins glob l =
     (case get_plugins_loop (plguin_cls l) (loader_component_name l) (plugins_cache l)
             (glob (flag_pattern l)) of
        (r, cache') \<Rightarrow> (r, l\<lparr>plugins_cache := cache'\<rparr>))"

text \<open>
  The loop of \<^verbatim>\<open>get_best_plugin\<close>: the first plugin whose version equals the
  requested one ends the loop (\<open>Inl\<close>); otherwise the plugins whose version is below the
  requested one are collected in order (\<open>Inr\<close>).
\<close>

fun best_scan :: "version \<Rightarrow> plugin list \<Rightarrow> plugin list \<Rightarrow> plugin + plugin list" where
  "best_scan v plugins [] = Inr plugins"
| "best_scan v plugins (plugin # rest) =
     (if version_eq (version plugin) v then Inl plugin
      else if version_lt (version plugin) v then best_scan v (plugins @ [plugin]) rest
      else best_scan v plugins rest)"

text \<open>
  \<^verbatim>\<open>max(plugins, key=lambda x: x.version)\<close> on a non-empty list: the first item is
  the candidate, and a later item replaces it only when its key is strictly greater.
\<close>

definition max_by_version :: "plugin \<Rightarrow> plugin list \<Rightarrow> plugin" where
  "max_by_version p ps = foldl (\<lambda>m q. if version_lt (version m) (version q) then q else m) p ps"

definition fallback_message :: "loader \<Rightarrow> version \<Rightarrow> plugin \<Rightarrow> string" where
  "fallback_message l v plugin =
     loader_component_name l @ '' '' @ py_lower (PLUGIN_TYPE_name l) @ '' plugin version ''
       @ py_join ''.'' v @ '' not found, use the best suitable version ''
       @ py_join ''.'' (version plugin) @ [CHR 0x0A]
       @ ''. Use `obd update` to update local plugin repository''"

text \<open>
  \<^verbatim>\<open>ComponentPluginLoader.get_best_plugin\<close>. The result is the exception or the
  returned plugin (\<open>None\<close> for Python's \<^verbatim>\<open>None\<close>), what was emitted through the
  I/O handle, and the loader with its cache updated.
\<close>

definition get_best_plugin ::
  "(string \<Rightarrow> string list) \<Rightarrow> loader \<Rightarrow> string
     \<Rightarrow> (py_exception + plugin option) \<times> emitted list \<times> loader" where
  "get_best_plugin glob l version_str =
     (let v = parse_version version_str in
      case get_plugins glob l of
        (Inl e, l') \<Rightarrow> (Inl e, [], l')
      | (Inr discovered, l') \<Rightarrow>
          (case best_scan v [] discovered of
             Inl plugin \<Rightarrow> (Inr (Some plugin), [], l')
           | Inr [] \<Rightarrow> (Inr None, [], l')
           | Inr (p # ps) \<Rightarrow>
               (let plugin = max_by_version p ps
                in (Inr (Some plugin), emit_warn (loader_stdio l') (fallback_message l' v plugin), l'))))"

text \<open>
  \<^verbatim>\<open>ComponentPluginLoader.__init__\<close>. \<^verbatim>\<open>plugin_type\<close> is a member of
  \<^verbatim>\<open>PluginType\<close> or \<^verbatim>\<open>None\<close>, and the class attribute
  \<^verbatim>\<open>PLUGIN_TYPE\<close> of the base loader is \<^verbatim>\<open>None\<close>. The class is looked up in the
  module by the value of the member: the module defines \<^verbatim>\<open>ParamPlugin\<close>,
  \<^verbatim>\<open>InstallPlugin\<close> and \<^verbatim>\<open>PyScriptPlugin\<close> and no \<^verbatim>\<open>StartPlugin\<close>.
\<close>

fun module_plugin_class :: "PluginType \<Rightarrow> plugin_class option" where
  "module_plugin_class START = None"
| "module_plugin_class PARAM = Some ParamPluginClass"
| "module_plugin_class INSTALL = Some InstallPluginClass"
| "module_plugin_class PY_SCRIPT = Some PyScriptPluginClass"

definition ComponentPluginLoader_init ::
  "string \<Rightarrow> PluginType option \<Rightarrow> stdio option \<Rightarrow> py_exception + loader" where
  "ComponentPluginLoader_init home_path plugin_type io =
     (case plugin_type of
        None \<Rightarrow> Inl NotImplementedError
      | Some t \<Rightarrow>
          (case module_plugin_class t of
             None \<Rightarrow> Inl (ImportError (PluginType_value t))
           | Some cls \<Rightarrow>
               Inr \<lparr>PLUGIN_TYPE_name = PluginType_name t, plguin_cls = cls, loader_stdio = io,
                    loader_path = home_path,
                    loader_component_name = snd (path_split home_path),
                    plugins_cache = Map.empty\<rparr>))"

section \<open>Plugin manager\<close>

record manager =
  manager_path :: string
  manager_stdio :: "stdio option"
  component_plugin_loaders :: "PluginType \<rightharpoonup> (string \<rightharpoonup> loader)"
  py_script_plugin_loaders :: "string \<rightharpoonup> (string \<rightharpoonup> loader)"

text \<open>
  Modelled from the spec: \<^verbatim>\<open>Manager.__init__\<close> of the module \<^verbatim>\<open>_manager\<close>, which is
  not among the sources. It keeps the I/O handle and the directory
  \<^verbatim>\<open>RELATIVE_PATH\<close> under the home path, where the layout
  \<^verbatim>\<open>plugins/{component_name}/{version}/{flag_file}\<close> starts.

  \<^verbatim>\<open>PluginManager.__init__\<close> then gives every member of \<^verbatim>\<open>PluginType\<close> an empty
  table of loaders and deletes the entry of \<^verbatim>\<open>PY_SCRIPT\<close>.
\<close>

definition PluginManager_init :: "string \<Rightarrow> stdio option \<Rightarrow> manager" where
  "PluginManager_init home_path io =
     \<lparr>manager_path = path_join home_path ''plugins'', manager_stdio = io,
      component_plugin_loaders =
        ((\<lambda>plugin_type. Some Map.empty) :: PluginType \<rightharpoonup> (string \<rightharpoonup> loader))(PY_SCRIPT := None),
      py_script_plugin_loaders = Map.empty\<rparr>"

text \<open>
  The argument \<^verbatim>\<open>plugin_type\<close> of \<^verbatim>\<open>PluginManager.get_best_plugin\<close> is any value
  the caller passes: a member of \<^verbatim>\<open>PluginType\<close>, or something else (here named by
  a string), which is never a key of the table.
\<close>

datatype plugin_kind = Member PluginType | NonMember string

fun registered_loaders :: "manager \<Rightarrow> plugin_kind \<Rightarrow> (string \<rightharpoonup> loader) option" where
  "registered_loaders m (Member t) = component_plugin_loaders m t"
| "registered_loaders m (NonMember other) = None"

definition PluginManager_get_best_plugin ::
  "(string \<Rightarrow> string list) \<Rightarrow> manager \<Rightarrow> plugin_kind \<Rightarrow> string \<Rightarrow> string
     \<Rightarrow> (py_exception + plugin option) \<times> emitted list \<times> manager" where
  "PluginManager_get_best_plugin glob m plugin_type cn version_str =
     (case plugin_type of
        NonMember other \<Rightarrow> (Inr None, [], m)
      | Member t \<Rightarrow>
          (case component_plugin_loaders m t of
             None \<Rightarrow> (Inr None, [], m)
           | Some loaders \<Rightarrow>
               (case (case loaders cn of
                        Some l \<Rightarrow> Inr l
                      | None \<Rightarrow> ComponentPluginLoader_init (path_join (manager_path m) cn) (Some t)
                                  (manager_stdio m)) of
                  Inl e \<Rightarrow> (Inl e, [], m)
                | Inr l \<Rightarrow>
                    (case get_best_plugin glob l version_str of
                       (r, out, l') \<Rightarrow>
                         (r, out,
                          m\<lparr>component_plugin_loaders :=
                              (component_plugin_loaders m)(t \<mapsto> loaders(cn \<mapsto> l'))\<rparr>)))))"

section \<open>Return envelope and execution context\<close>

text \<open>The Python values a script hands back in its envelope.\<close>

datatype pyval = PNone | PBool bool | PInt int | PStr string | PList "pyval list"

fun truthy :: "pyval \<Rightarrow> bool" where
  "truthy PNone = False"
| "truthy (PBool b) = b"
| "truthy (PInt i) = (i \<noteq> 0)"
| "truthy (PStr s) = (s \<noteq> [])"
| "truthy (PList xs) = (xs \<noteq> [])"

record PluginReturn =
  return_value :: pyval
  return_args :: "pyval list"
  return_kwargs :: "string \<rightharpoonup> pyval"

text \<open>\<^verbatim>\<open>PluginReturn.__init__(self, value=False, *arg, **kwargs)\<close>.\<close>

definition PluginReturn_init :: "pyval \<Rightarrow> pyval list \<Rightarrow> (string \<rightharpoonup> pyval) \<Rightarrow> PluginReturn" where
  "PluginReturn_init v arg kwargs = \<lparr>return_value = v, return_args = arg, return_kwargs = kwargs\<rparr>"

text \<open>\<^verbatim>\<open>PluginReturn()\<close>: the defaults of the constructor.\<close>

definition PluginReturn_new :: PluginReturn where
  "PluginReturn_new = PluginReturn_init (PBool False) [] Map.empty"

definition PluginReturn_bool :: "PluginReturn \<Rightarrow> bool" where
  "PluginReturn_bool r = (if truthy (return_value r) then True else False)"

text \<open>
  \<^verbatim>\<open>PluginReturn.get_return(key)\<close>: the membership test
  \<^verbatim>\<open>key in self.kwargs\<close>, then the subscript \<^verbatim>\<open>self.kwargs[key]\<close>, which by
  itself raises \<^verbatim>\<open>KeyError\<close> on a key that is absent. The keys of the named payload
  are strings, the names of keyword arguments.
\<close>

definition dict_getitem :: "(string \<rightharpoonup> pyval) \<Rightarrow> string \<Rightarrow> py_exception + pyval" where
  "dict_getitem d key = (case d key of None \<Rightarrow> Inl (KeyError key) | Some v \<Rightarrow> Inr v)"

definition PluginReturn_get_return :: "PluginReturn \<Rightarrow> string \<Rightarrow> py_exception + pyval" where
  "PluginReturn_get_return r key =
     (if return_kwargs r key \<noteq> None then dict_getitem (return_kwargs r) key else Inr PNone)"

definition set_args :: "pyval list \<Rightarrow> PluginReturn \<Rightarrow> PluginReturn" where
  "set_args args r = r\<lparr>return_args := args\<rparr>"

definition set_kwargs :: "(string \<rightharpoonup> pyval) \<Rightarrow> PluginReturn \<Rightarrow> PluginReturn" where
  "set_kwargs kwargs r = r\<lparr>return_kwargs := kwargs\<rparr>"

definition set_return :: "pyval \<Rightarrow> PluginReturn \<Rightarrow> PluginReturn" where
  "set_return v r = r\<lparr>return_value := v\<rparr>"

definition PluginReturn_return_true ::
  "pyval list \<Rightarrow> (string \<rightharpoonup> pyval) \<Rightarrow> PluginReturn \<Rightarrow> PluginReturn" where
  "PluginReturn_return_true args kwargs r = set_kwargs kwargs (set_args args (set_return (PBool True) r))"

definition PluginReturn_return_false ::
  "pyval list \<Rightarrow> (string \<rightharpoonup> pyval) \<Rightarrow> PluginReturn \<Rightarrow> PluginReturn" where
  "PluginReturn_return_false args kwargs r = set_kwargs kwargs (set_args args (set_return (PBool False) r))"

text \<open>
  \<^verbatim>\<open>SubIO(stdio)\<close> keeps \<^verbatim>\<open>getattr(stdio, 'sub_io', lambda: None)()\<close>: the sub-handle
  of the caller's handle when the handle has the method, \<^verbatim>\<open>None\<close> otherwise. The
  sub-handle is named by the handle it comes from.
\<close>

record SubIO =
  sub_io_of :: "stdio option"

definition SubIO_init :: "stdio option \<Rightarrow> SubIO" where
  "SubIO_init io =
     \<lparr>sub_io_of = (case io of None \<Rightarrow> None | Some h \<Rightarrow> if has_sub_io h then Some h else None)\<rparr>"

text \<open>
  \<^verbatim>\<open>ScriptPlugin.ClientForScriptPlugin(client, stdio)\<close>: the client and the scoped
  handle. The objects the caller passes (components, clients, cluster configuration,
  command, options) are opaque, of type \<open>'x\<close>.
\<close>

record 'x ClientForScriptPlugin =
  client :: 'x
  client_stdio :: SubIO

record 'x PluginContext =
  ctx_components :: 'x
  ctx_clients :: "('x \<times> 'x ClientForScriptPlugin) list"
  ctx_cluster_config :: 'x
  ctx_cmd :: 'x
  ctx_options :: 'x
  ctx_stdio :: SubIO
  ctx_return :: PluginReturn

definition PluginContext_init ::
  "'x \<Rightarrow> ('x \<times> 'x ClientForScriptPlugin) list \<Rightarrow> 'x \<Rightarrow> 'x \<Rightarrow> 'x \<Rightarrow> SubIO \<Rightarrow> 'x PluginContext" where
  "PluginContext_init components clients cluster_config cmd options io =
     \<lparr>ctx_components = components, ctx_clients = clients, ctx_cluster_config = cluster_config,
      ctx_cmd = cmd, ctx_options = options, ctx_stdio = io, ctx_return = PluginReturn_new\<rparr>"

definition PluginContext_get_return :: "'x PluginContext \<Rightarrow> PluginReturn" where
  "PluginContext_get_return c = ctx_return c"

definition PluginContext_return_true ::
  "pyval list \<Rightarrow> (string \<rightharpoonup> pyval) \<Rightarrow> 'x PluginContext \<Rightarrow> 'x PluginContext" where
  "PluginContext_return_true args kwargs c =
     c\<lparr>ctx_return := PluginReturn_return_true args kwargs (ctx_return c)\<rparr>"

definition PluginContext_return_false ::
  "pyval list \<Rightarrow> (string \<rightharpoonup> pyval) \<Rightarrow> 'x PluginContext \<Rightarrow> 'x PluginContext" where
  "PluginContext_return_false args kwargs c =
     c\<lparr>ctx_return := PluginReturn_return_false args kwargs (ctx_return c)\<rparr>"


section \<open>Script plugins\<close>

text \<open>
  The entry function of a script is plugin code, called as
  \<^verbatim>\<open>method(self.context, *arg, **kwargs)\<close>. It is a function of a loaded module:
  it can read and change the context it is given and the globals of its module, and it
  ends by returning or by raising. It is modelled as a function from the globals, the
  context and the arguments to the globals and the context as the call leaves them and
  the exception it raised, if any. A global holds a plain value or a context that the
  script kept. A module object is the table of the functions it defines, with its
  globals. State that a script keeps elsewhere in the process (in another module, in the
  environment) outlives a call in the same way, since the wrapper touches none of it,
  and is represented by these globals.
\<close>

datatype 'x global_value = GValue pyval | GContext "'x PluginContext"

type_synonym 'x globals = "string \<rightharpoonup> 'x global_value"

type_synonym 'x entry_function =
  "'x globals \<Rightarrow> 'x PluginContext \<Rightarrow> pyval list \<Rightarrow> (string \<rightharpoonup> pyval)
     \<Rightarrow> 'x globals \<times> 'x PluginContext \<times> py_exception option"

record 'x py_module =
  module_functions :: "string \<rightharpoonup> 'x entry_function"
  module_globals :: "'x globals"

text \<open>
  Modelled from the spec: the class \<^verbatim>\<open>DynamicLoading\<close> of the module \<^verbatim>\<open>tool\<close>,
  which is not among the sources. Loading adds the artifact's directories to a search
  path and performs a named, idempotent import; unloading removes the search-path
  entries and releases the named module reference. \<open>importable\<close> is what an import of
  a name finds under a search path (the module that the script file on disk defines,
  as its execution leaves it); a failed import gives \<^verbatim>\<open>None\<close>.

  Module objects are mutable and shared: the registry \<open>MODULES\<close> and the field
  \<^verbatim>\<open>module\<close> of a plugin refer to the same object. The record therefore also
  carries the store of the module objects, \<open>module_objects\<close>, from references to
  objects; \<open>next_ref\<close> is the reference that the next new object gets.
\<close>

record 'x DynamicLoading =
  LIBS_PATH :: "string list"
  MODULES :: "string \<rightharpoonup> nat"
  importable :: "string list \<Rightarrow> string \<rightharpoonup> 'x py_module"
  module_objects :: "nat \<rightharpoonup> 'x py_module"
  next_ref :: nat

definition add_libs_path :: "string list \<Rightarrow> 'x DynamicLoading \<Rightarrow> 'x DynamicLoading" where
  "add_libs_path libs dl = dl\<lparr>LIBS_PATH := LIBS_PATH dl @ libs\<rparr>"

definition remove_libs_path :: "string list \<Rightarrow> 'x DynamicLoading \<Rightarrow> 'x DynamicLoading" where
  "remove_libs_path libs dl = dl\<lparr>LIBS_PATH := filter (\<lambda>d. d \<notin> set libs) (LIBS_PATH dl)\<rparr>"

definition import_module :: "string \<Rightarrow> 'x DynamicLoading \<Rightarrow> nat option \<times> 'x DynamicLoading" where
  "import_module name dl =
     (case MODULES dl name of
        Some r \<Rightarrow> (Some r, dl)
      | None \<Rightarrow>
          (case importable dl (LIBS_PATH dl) name of
             None \<Rightarrow> (None, dl)
           | Some m \<Rightarrow>
               (Some (next_ref dl),
                dl\<lparr>MODULES := (MODULES dl)(name \<mapsto> next_ref dl),
                   module_objects := (module_objects dl)(next_ref dl \<mapsto> m),
                   next_ref := Suc (next_ref dl)\<rparr>)))"

definition export_module :: "string \<Rightarrow> 'x DynamicLoading \<Rightarrow> 'x DynamicLoading" where
  "export_module name dl = dl\<lparr>MODULES := (MODULES dl)(name := None)\<rparr>"

text \<open>
  A script plugin: the fields of \<^verbatim>\<open>Plugin\<close>, of \<^verbatim>\<open>ScriptPlugin\<close>
  (\<^verbatim>\<open>context\<close>) and of \<^verbatim>\<open>PyScriptPlugin\<close> (\<^verbatim>\<open>module\<close>, \<^verbatim>\<open>libs_path\<close>), with
  the class attributes \<^verbatim>\<open>PLUGIN_COMPONENT_NAME\<close> and \<^verbatim>\<open>PLUGIN_TYPE.name\<close>.
  \<^verbatim>\<open>module\<close> is \<^verbatim>\<open>None\<close> or a reference to a module object.
\<close>

record 'x PyScriptPlugin = plugin +
  PLUGIN_COMPONENT_NAME :: string
  script_type_name :: string
  "context" :: "'x PluginContext option"
  module :: "nat option"
  libs_path :: "string list"

text \<open>
  The constructor of the class that \<^verbatim>\<open>PyScriptPluginLoader._create_\<close> generates for
  a script name: \<^verbatim>\<open>FLAG_FILE = '<name>.py'\<close>, \<^verbatim>\<open>PLUGIN_COMPONENT_NAME = '<name>'\<close>,
  the type name \<^verbatim>\<open>'PY_SCRIPT_%s' % script_name.upper()\<close>; \<^verbatim>\<open>LIBS_PATH\<close> is the
  empty list of the class \<^verbatim>\<open>PyScriptPlugin\<close>.
\<close>

definition py_upper :: "string \<Rightarrow> string" where
  "py_upper s = map upper_char s"

definition PyScriptPlugin_init ::
  "string \<Rightarrow> string \<Rightarrow> string \<Rightarrow> string \<Rightarrow> py_exception + 'x PyScriptPlugin" where
  "PyScriptPlugin_init script_name cn pp v =
     (case Plugin_init (GeneratedScriptClass script_name) cn pp v of
        Inl e \<Rightarrow> Inl e
      | Inr base \<Rightarrow>
          Inr (plugin.extend base
                 (PyScriptPlugin.fields script_name (''PY_SCRIPT_'' @ py_upper script_name)
                    None None ([] @ [pp]))))"

text \<open>\<^verbatim>\<open>Plugin.__str__\<close>.\<close>

definition Plugin_str :: "string \<Rightarrow> 'a plugin_scheme \<Rightarrow> string" where
  "Plugin_str type_name p =
     component_name p @ ''-'' @ py_lower type_name @ ''-'' @ py_join ''.'' (version p)"

text \<open>
  \<^verbatim>\<open>PyScriptPlugin._import\<close> and \<^verbatim>\<open>PyScriptPlugin._export\<close>. The export
  releases the module in the registry; the field \<^verbatim>\<open>module\<close> of the plugin is not
  reset, so the plugin keeps its module object and a later import does nothing.
\<close>

definition PyScriptPlugin_import ::
  "'x PyScriptPlugin \<Rightarrow> 'x DynamicLoading \<Rightarrow> 'x PyScriptPlugin \<times> 'x DynamicLoading" where
  "PyScriptPlugin_import self dl =
     (case module self of
        Some r \<Rightarrow> (self, dl)
      | None \<Rightarrow>
          (case import_module (PLUGIN_COMPONENT_NAME self) (add_libs_path (libs_path self) dl) of
             (r, dl') \<Rightarrow> (self\<lparr>module := r\<rparr>, dl')))"

definition PyScriptPlugin_export ::
  "'x PyScriptPlugin \<Rightarrow> 'x DynamicLoading \<Rightarrow> 'x DynamicLoading" where
  "PyScriptPlugin_export self dl =
     (case module self of
        Some r \<Rightarrow> export_module (PLUGIN_COMPONENT_NAME self) (remove_libs_path (libs_path self) dl)
      | None \<Rightarrow> dl)"

text \<open>
  \<^verbatim>\<open>ScriptPlugin.before_do\<close>: import, wrap the handle and every client, build the
  context. \<^verbatim>\<open>ScriptPlugin.after_do\<close>: export, clear the context.
\<close>

definition before_do ::
  "'x PyScriptPlugin \<Rightarrow> 'x DynamicLoading \<Rightarrow> 'x \<Rightarrow> ('x \<times> 'x) list \<Rightarrow> 'x \<Rightarrow> 'x \<Rightarrow> 'x \<Rightarrow> stdio option
     \<Rightarrow> 'x PyScriptPlugin \<times> 'x DynamicLoading" where
  "before_do self dl components clients cluster_config cmd options io =
     (case PyScriptPlugin_import self dl of
        (self', dl') \<Rightarrow>
          (let sub_stdio = SubIO_init io;
               sub_clients = map (\<lambda>(server, c). (server, \<lparr>client = c, client_stdio = sub_stdio\<rparr>)) clients
           in (self'\<lparr>context := Some (PluginContext_init components sub_clients cluster_config
                                         cmd options sub_stdio)\<rparr>, dl')))"

definition after_do ::
  "'x PyScriptPlugin \<Rightarrow> 'x DynamicLoading \<Rightarrow> 'x PyScriptPlugin \<times> 'x DynamicLoading" where
  "after_do self dl = (self\<lparr>context := None\<rparr>, PyScriptPlugin_export self dl)"

text \<open>
  What one invocation leaves behind: the exception that reached the caller or the
  envelope returned, what was emitted through the I/O handle, the names of the module
  functions that were called, the plugin and the loading state.
\<close>

record 'x invocation =
  outcome :: "py_exception + PluginReturn"
  emitted_log :: "emitted list"
  called :: "string list"
  plugin_after :: "'x PyScriptPlugin"
  loading_after :: "'x DynamicLoading"

text \<open>
  The lookup of the entry function,
  \<^verbatim>\<open>if self.module: method = getattr(self.module, method_name, False); if method:\<close>.
  The result is the reference of the module, the module object and the function, when
  the plugin has a module that defines a function of that name. A reference always has
  its object; the case without one is there for totality only.
\<close>

definition entry_point ::
  "string \<Rightarrow> 'x PyScriptPlugin \<Rightarrow> 'x DynamicLoading \<Rightarrow> (nat \<times> 'x py_module \<times> 'x entry_function) option" where
  "entry_point method_name self dl =
     (case module self of
        None \<Rightarrow> None
      | Some r \<Rightarrow>
          (case module_objects dl r of
             None \<Rightarrow> None
           | Some m \<Rightarrow>
               (case module_functions m method_name of
                  None \<Rightarrow> None
                | Some method \<Rightarrow> Some (r, m, method))))"

text \<open>
  \<^verbatim>\<open>pyScriptPluginExec(func)\<close>, the wrapper \<^verbatim>\<open>_new_func\<close>; \<open>method_name\<close> is
  \<^verbatim>\<open>func.__name__\<close>. The call of the entry function changes the context and the
  globals of the module object in place. An exception of the entry function that is an
  instance of \<^verbatim>\<open>Exception\<close> enters the handler, which logs it; any other leaves
  the wrapper at once, and so does an exception raised in the handler itself: both
  before \<^verbatim>\<open>after_do\<close>. \<^verbatim>\<open>before_do\<close> always leaves a context, so the case of no
  context before the call is there for totality only.
\<close>

definition pyScriptPluginExec ::
  "string \<Rightarrow> 'x PyScriptPlugin \<Rightarrow> 'x DynamicLoading \<Rightarrow> 'x \<Rightarrow> ('x \<times> 'x) list \<Rightarrow> 'x \<Rightarrow> 'x \<Rightarrow> 'x
     \<Rightarrow> stdio option \<Rightarrow> pyval list \<Rightarrow> (string \<rightharpoonup> pyval) \<Rightarrow> 'x invocation" where
  "pyScriptPluginExec method_name self dl components clients cluster_config cmd options io arg kwargs =
     (case before_do self dl components clients cluster_config cmd options io of
        (self1, dl1) \<Rightarrow>
          (let (raised, out, calls, self2, dl2) =
                 (case entry_point method_name self1 dl1 of
                    None \<Rightarrow> (None, [], [], self1, dl1)
                  | Some (r, m, method) \<Rightarrow>
                      (case context self1 of
                         None \<Rightarrow> (None, [], [], self1, dl1)
                       | Some c \<Rightarrow>
                           (case method (module_globals m) c arg kwargs of
                              (g, c', ended) \<Rightarrow>
                                (let self' = self1\<lparr>context := Some c'\<rparr>;
                                     dl' = dl1\<lparr>module_objects :=
                                             (module_objects dl1)(r \<mapsto> m\<lparr>module_globals := g\<rparr>)\<rparr>
                                 in case ended of
                                      None \<Rightarrow> (None, [], [method_name], self', dl')
                                    | Some e \<Rightarrow>
                                        if is_Exception e
                                        then (case log_runtime_error io
                                                     (Plugin_str (script_type_name self1) self1) e of
                                                Inl e' \<Rightarrow> (Some e', [], [method_name], self', dl')
                                              | Inr logged \<Rightarrow> (None, logged, [method_name], self', dl'))
                                        else (Some e, [], [method_name], self', dl')))))
           in case raised of
                Some e \<Rightarrow>
                  \<lparr>outcome = Inl e, emitted_log = out, called = calls, plugin_after = self2,
                   loading_after = dl2\<rparr>
              | None \<Rightarrow>
                  (let ret = (case context self2 of
                                Some c \<Rightarrow> PluginContext_get_return c
                              | None \<Rightarrow> PluginReturn_new)
                   in case after_do self2 dl2 of
                        (self3, dl3) \<Rightarrow>
                          \<lparr>outcome = Inr ret, emitted_log = out, called = calls,
                           plugin_after = self3, loading_after = dl3\<rparr>)))"

section \<open>Manifests\<close>

text \<open>
  What the YAML parser returns for a manifest. The parser (\<^verbatim>\<open>tool.YamlLoader\<close>) and the
  file system are outside the sources: the state of the file at a path is a parameter,
  either missing (\<^verbatim>\<open>open\<close> raises), unparsable (\<^verbatim>\<open>yaml.load\<close> raises) or loaded
  as a value.
\<close>

datatype yaml =
    YNull
  | YBool bool
  | YInt int
  | YStr string
  | YList "yaml list"
  | YDict "(string \<times> yaml) list"

datatype manifest_file = Missing | Unparsable | Loaded yaml

fun yaml_truthy :: "yaml \<Rightarrow> bool" where
  "yaml_truthy YNull = False"
| "yaml_truthy (YBool b) = b"
| "yaml_truthy (YInt i) = (i \<noteq> 0)"
| "yaml_truthy (YStr s) = (s \<noteq> [])"
| "yaml_truthy (YList xs) = (xs \<noteq> [])"
| "yaml_truthy (YDict d) = (d \<noteq> [])"

text \<open>\<^verbatim>\<open>for x in value\<close>: the items of a list, the keys of a dictionary, the characters
  of a string; anything else is not iterable.\<close>

fun yaml_iter :: "yaml \<Rightarrow> py_exception + yaml list" where
  "yaml_iter (YList xs) = Inr xs"
| "yaml_iter (YDict d) = Inr (map (\<lambda>(k, v). YStr k) d)"
| "yaml_iter (YStr s) = Inr (map (\<lambda>c. YStr [c]) s)"
| "yaml_iter _ = Inl TypeError"

text \<open>\<^verbatim>\<open>value[key]\<close> with a string key: defined on dictionaries only.\<close>

fun yaml_getitem :: "yaml \<Rightarrow> string \<Rightarrow> py_exception + yaml" where
  "yaml_getitem (YDict d) key = (case map_of d key of None \<Rightarrow> Inl (KeyError key) | Some v \<Rightarrow> Inr v)"
| "yaml_getitem _ key = Inl TypeError"

text \<open>Lists and dictionaries cannot be keys of a dictionary.\<close>

fun hashable :: "yaml \<Rightarrow> bool" where
  "hashable (YList xs) = False"
| "hashable (YDict d) = False"
| "hashable _ = True"

text \<open>As keys, \<^verbatim>\<open>True\<close> and \<^verbatim>\<open>1\<close> (and \<^verbatim>\<open>False\<close> and \<^verbatim>\<open>0\<close>) are equal.\<close>

fun key_norm :: "yaml \<Rightarrow> yaml" where
  "key_norm (YBool b) = YInt (if b then 1 else 0)"
| "key_norm k = k"

text \<open>\<^verbatim>\<open>d[k] = v\<close> on a dictionary kept in insertion order: an existing key keeps its
  place and takes the new value.\<close>

fun dict_set :: "(yaml \<times> 'v) list \<Rightarrow> yaml \<Rightarrow> 'v \<Rightarrow> (yaml \<times> 'v) list" where
  "dict_set [] k v = [(k, v)]"
| "dict_set ((k', v') # d) k v =
     (if key_norm k' = key_norm k then (k', v) # d else (k', v') # dict_set d k v)"

text \<open>
  Modelled from the spec: \<^verbatim>\<open>ConfigUtil.get_value_from_dict\<close> of the module \<^verbatim>\<open>tool\<close>,
  which is not among the sources: the value of an optional field of a record, or its
  default when the record has no such field.
\<close>

definition get_value_from_dict :: "yaml \<Rightarrow> string \<Rightarrow> yaml \<Rightarrow> yaml" where
  "get_value_from_dict conf key dflt =
     (case yaml_getitem conf key of Inl e \<Rightarrow> dflt | Inr v \<Rightarrow> v)"

subsection \<open>Parameter plugin\<close>

record ConfigItem =
  name :: yaml
  default_value :: yaml
  require :: yaml
  need_restart :: yaml
  need_redeploy :: yaml

type_synonym param_data = "(yaml \<times> ConfigItem) list"

record ParamPlugin = plugin +
  def_param_yaml_path :: string
  src_data :: "param_data option"

definition ParamPlugin_init :: "string \<Rightarrow> string \<Rightarrow> string \<Rightarrow> py_exception + ParamPlugin" where
  "ParamPlugin_init cn pp v =
     (case Plugin_init ParamPluginClass cn pp v of
        Inl e \<Rightarrow> Inl e
      | Inr base \<Rightarrow>
          Inr (plugin.extend base (ParamPlugin.fields (path_join pp ''parameter.yaml'') None)))"

definition ConfigItem_of :: "yaml \<Rightarrow> yaml \<Rightarrow> ConfigItem" where
  "ConfigItem_of n conf =
     \<lparr>name = n,
      default_value = get_value_from_dict conf ''default'' YNull,
      require = get_value_from_dict conf ''require'' (YBool False),
      need_restart = get_value_from_dict conf ''need_restart'' (YBool False),
      need_redeploy = get_value_from_dict conf ''need_redeploy'' (YBool False)\<rparr>"

text \<open>
  The loop of \<^verbatim>\<open>ParamPlugin.params\<close> over the records, on the dictionary
  \<^verbatim>\<open>self._src_data\<close>: the exception that ended it, if any, and the dictionary as the
  loop left it.
\<close>

fun params_loop :: "param_data \<Rightarrow> yaml list \<Rightarrow> py_exception option \<times> param_data" where
  "params_loop d [] = (None, d)"
| "params_loop d (conf # rest) =
     (case yaml_getitem conf ''name'' of
        Inl e \<Rightarrow> (Some e, d)
      | Inr n \<Rightarrow>
          if hashable n then params_loop (dict_set d n (ConfigItem_of n conf)) rest
          else (Some TypeError, d))"

text \<open>The body of the \<^verbatim>\<open>try\<close>, from \<^verbatim>\<open>self._src_data = {}\<close> on.\<close>

definition params_try :: "manifest_file \<Rightarrow> py_exception option \<times> param_data" where
  "params_try manifest =
     (case manifest of
        Missing \<Rightarrow> (Some IOError, [])
      | Unparsable \<Rightarrow> (Some YAMLError, [])
      | Loaded configs \<Rightarrow>
          (case yaml_iter configs of
             Inl e \<Rightarrow> (Some e, [])
           | Inr confs \<Rightarrow> params_loop [] confs))"

text \<open>
  The property \<^verbatim>\<open>ParamPlugin.params\<close>: what it raises or returns, and the plugin with
  its cache. The bare \<^verbatim>\<open>except: pass\<close> drops whatever the body raised.
\<close>

definition params ::
  "(string \<Rightarrow> manifest_file) \<Rightarrow> ParamPlugin \<Rightarrow> (py_exception + param_data) \<times> ParamPlugin" where
  "params fs self =
     (case src_data self of
        Some d \<Rightarrow> (Inr d, self)
      | None \<Rightarrow>
          (case params_try (fs (def_param_yaml_path self)) of
             (raised, d) \<Rightarrow> (Inr d, self\<lparr>src_data := Some d\<rparr>)))"

subsection \<open>Install plugin\<close>

record FileItem =
  src_path :: string
  target_path :: yaml
  file_type :: yaml

type_synonym file_map_data = "(yaml \<times> FileItem) list"

record InstallPlugin = plugin +
  file_map_path :: string
  file_map_cache :: "file_map_data option"

definition InstallPlugin_init :: "string \<Rightarrow> string \<Rightarrow> string \<Rightarrow> py_exception + InstallPlugin" where
  "InstallPlugin_init cn pp v =
     (case Plugin_init InstallPluginClass cn pp v of
        Inl e \<Rightarrow> Inl e
      | Inr base \<Rightarrow>
          Inr (plugin.extend base (InstallPlugin.fields (path_join pp ''file_map.yaml'') None)))"

text \<open>
  \<^verbatim>\<open>k = data['src_path']\<close>, then
  \<^verbatim>\<open>if k[0] != '.': k = '.%s' % os.path.join('/', k)\<close>, then the use of \<open>k\<close> as a key.
  Only a non-empty string passes: \<^verbatim>\<open>k[0]\<close> raises on an empty string or list, on a
  number, a boolean or \<^verbatim>\<open>None\<close> and on a dictionary (whose keys are strings);
  a non-empty list fails in \<^verbatim>\<open>os.path.join\<close> or as a key.
\<close>

fun normalize_src_path :: "yaml \<Rightarrow> py_exception + string" where
  "normalize_src_path (YStr []) = Inl IndexError"
| "normalize_src_path (YStr (c # cs)) =
     Inr (if c \<noteq> CHR ''.'' then ''.'' @ path_join ''/'' (c # cs) else c # cs)"
| "normalize_src_path (YList []) = Inl IndexError"
| "normalize_src_path (YList (x # xs)) = Inl TypeError"
| "normalize_src_path (YDict d) = Inl (KeyError ''0'')"
| "normalize_src_path _ = Inl TypeError"

definition FileItem_init :: "string \<Rightarrow> yaml \<Rightarrow> yaml \<Rightarrow> FileItem" where
  "FileItem_init src target t =
     \<lparr>src_path = src, target_path = target, file_type = (if yaml_truthy t then t else YStr ''file'')\<rparr>"

fun file_map_loop :: "file_map_data \<Rightarrow> yaml list \<Rightarrow> py_exception option \<times> file_map_data" where
  "file_map_loop d [] = (None, d)"
| "file_map_loop d (data # rest) =
     (case yaml_getitem data ''src_path'' of
        Inl e \<Rightarrow> (Some e, d)
      | Inr k0 \<Rightarrow>
          (case normalize_src_path k0 of
             Inl e \<Rightarrow> (Some e, d)
           | Inr k \<Rightarrow>
               file_map_loop
                 (dict_set d (YStr k)
                    (FileItem_init k (get_value_from_dict data ''target_path'' (YStr k))
                       (get_value_from_dict data ''type'' YNull)))
                 rest))"

definition file_map_try :: "manifest_file \<Rightarrow> py_exception option \<times> file_map_data" where
  "file_map_try manifest =
     (case manifest of
        Missing \<Rightarrow> (Some IOError, [])
      | Unparsable \<Rightarrow> (Some YAMLError, [])
      | Loaded entries \<Rightarrow>
          (case yaml_iter entries of
             Inl e \<Rightarrow> (Some e, [])
           | Inr records \<Rightarrow> file_map_loop [] records))"

definition file_map ::
  "(string \<Rightarrow> manifest_file) \<Rightarrow> InstallPlugin \<Rightarrow> (py_exception + file_map_data) \<times> InstallPlugin" where
  "file_map fs self =
     (case file_map_cache self of
        Some d \<Rightarrow> (Inr d, self)
      | None \<Rightarrow>
          (case file_map_try (fs (file_map_path self)) of
             (raised, d) \<Rightarrow> (Inr d, self\<lparr>file_map_cache := Some d\<rparr>)))"


subsection \<open>Well-formed records\<close>

text \<open>
  A record of a parameter manifest passes the loop when it is a dictionary with a
  \<^verbatim>\<open>name\<close> that can be a key; a record of a file manifest when it is a dictionary
  whose \<^verbatim>\<open>src_path\<close> is a non-empty string.
\<close>

definition param_record_ok :: "yaml \<Rightarrow> bool" where
  "param_record_ok conf =
     (case yaml_getitem conf ''name'' of Inl e \<Rightarrow> False | Inr n \<Rightarrow> hashable n)"

definition file_record_ok :: "yaml \<Rightarrow> bool" where
  "file_record_ok data =
     (case yaml_getitem data ''src_path'' of
        Inl e \<Rightarrow> False
      | Inr k0 \<Rightarrow> (case normalize_src_path k0 of Inl e \<Rightarrow> False | Inr k \<Rightarrow> True))"

section \<open>Example inputs\<close>

text \<open>
  A plugin repository with the parameter plugins of one component at three versions, and
  the loader \<^verbatim>\<open>ComponentPluginLoader('/plugins/ob', PluginType.PARAM, stdio)\<close> over it.
\<close>

definition example_glob :: "string \<Rightarrow> string list" where
  "example_glob pattern =
     (if pattern = ''/plugins/ob/*/parameter.yaml''
      then [''/plugins/ob/2.0.0/parameter.yaml'', ''/plugins/ob/2.1.0/parameter.yaml'',
            ''/plugins/ob/3.0.0/parameter.yaml'']
      else [])"

definition example_loader :: "stdio option \<Rightarrow> loader" where
  "example_loader io =
     \<lparr>PLUGIN_TYPE_name = ''PARAM'', plguin_cls = ParamPluginClass, loader_stdio = io,
      loader_path = ''/plugins/ob'', loader_component_name = ''ob'', plugins_cache = Map.empty\<rparr>"

definition example_plugin :: "string \<Rightarrow> plugin" where
  "example_plugin v =
     \<lparr>component_name = ''ob'', plugin_path = ''/plugins/ob/'' @ v, version = parse_version v,
      plugin_cls = ParamPluginClass\<rparr>"

definition example_stdio :: stdio where
  "example_stdio =
     \<lparr>has_warn = True, has_exception = True, has_sub_io = False, exception_raises = None\<rparr>"


text \<open>
  The script plugin \<^verbatim>\<open>init\<close> of \<^verbatim>\<open>plugins/obproxy/3.1.0/init.py\<close>, as the constructor
  of its generated class builds it; a module that defines one function \<^verbatim>\<open>init\<close> and
  has no other global; a loading state in which a given module is what an import of
  \<^verbatim>\<open>init\<close> finds in the plugin's directory; and one invocation of the plugin with
  given positional arguments. The caller's objects are named by strings.
\<close>

definition example_script :: "string PyScriptPlugin" where
  "example_script =
     \<lparr>component_name = ''obproxy'', plugin_path = ''/plugins/obproxy/3.1.0'',
      version = [''3'', ''1'', ''0''], plugin_cls = GeneratedScriptClass ''init'',
      PLUGIN_COMPONENT_NAME = ''init'', script_type_name = ''PY_SCRIPT_INIT'',
      context = None, module = None, libs_path = [''/plugins/obproxy/3.1.0'']\<rparr>"

definition example_module :: "string entry_function \<Rightarrow> string py_module" where
  "example_module f = \<lparr>module_functions = [''init'' \<mapsto> f], module_globals = Map.empty\<rparr>"

definition empty_module :: "string py_module" where
  "empty_module = \<lparr>module_functions = Map.empty, module_globals = Map.empty\<rparr>"

definition example_loading :: "string py_module \<Rightarrow> string DynamicLoading" where
  "example_loading m =
     \<lparr>LIBS_PATH = [], MODULES = Map.empty,
      importable = (\<lambda>path name.
        if name = ''init'' \<and> ''/plugins/obproxy/3.1.0'' \<in> set path then Some m else None),
      module_objects = Map.empty, next_ref = 0\<rparr>"

definition example_before ::
  "string py_module \<Rightarrow> stdio option \<Rightarrow> string PyScriptPlugin \<times> string DynamicLoading" where
  "example_before m io =
     before_do example_script (example_loading m) ''components'' [(''server1'', ''client1'')]
       ''cluster_config'' ''cmd'' ''options'' io"

definition example_context :: "stdio option \<Rightarrow> string PluginContext" where
  "example_context io =
     PluginContext_init ''components''
       [(''server1'', \<lparr>client = ''client1'', client_stdio = SubIO_init io\<rparr>)]
       ''cluster_config'' ''cmd'' ''options'' (SubIO_init io)"

definition example_invocation ::
  "string py_module \<Rightarrow> stdio option \<Rightarrow> pyval list \<Rightarrow> string invocation" where
  "example_invocation m io arg =
     pyScriptPluginExec ''init'' example_script (example_loading m) ''components''
       [(''server1'', ''client1'')] ''cluster_config'' ''cmd'' ''options'' io arg Map.empty"

text \<open>
  The entry function of \<^verbatim>\<open>init.py\<close> ends with
  \<^verbatim>\<open>global_ret and plugin_context.return_true()\<close>; \<open>global_ret\<close> says whether every
  command on the servers succeeded. More entry functions: one that calls
  \<^verbatim>\<open>return_true(a, b, x=1)\<close>, one that calls \<^verbatim>\<open>return_true()\<close> and then raises,
  one that leaves through \<^verbatim>\<open>sys.exit\<close>, one that raises an exception whose
  \<^verbatim>\<open>__str__\<close> raises, and one that reports its arguments back when it is given any.
  None of them uses a global.
\<close>

definition init_py :: "bool \<Rightarrow> string entry_function" where
  "init_py global_ret g c arg kwargs =
     (g, if global_ret then PluginContext_return_true [] Map.empty c else c, None)"

definition returns_true_with :: "pyval \<Rightarrow> pyval \<Rightarrow> string entry_function" where
  "returns_true_with a b g c arg kwargs =
     (g, PluginContext_return_true [a, b] [''x'' \<mapsto> PInt 1] c, None)"







text \<open>
  A parameter plugin and an install plugin of version 3.0.0, neither loaded yet, and a
  file system where each manifest has a well-formed first record and a second record
  without its required field.
\<close>

definition example_param_plugin :: ParamPlugin where
  "example_param_plugin =
     \<lparr>component_name = ''ob'', plugin_path = ''/plugins/ob/3.0.0'',
      version = [''3'', ''0'', ''0''], plugin_cls = ParamPluginClass,
      def_param_yaml_path = ''/plugins/ob/3.0.0/parameter.yaml'', src_data = None\<rparr>"

definition example_install_plugin :: InstallPlugin where
  "example_install_plugin =
     \<lparr>component_name = ''ob'', plugin_path = ''/plugins/ob/3.0.0'',
      version = [''3'', ''0'', ''0''], plugin_cls = InstallPluginClass,
      file_map_path = ''/plugins/ob/3.0.0/file_map.yaml'', file_map_cache = None\<rparr>"

definition example_manifests :: "string \<Rightarrow> manifest_file" where
  "example_manifests path =
     (if path = ''/plugins/ob/3.0.0/parameter.yaml''
      then Loaded (YList [YDict [(''name'', YStr ''port''), (''default'', YInt 2881)],
                          YDict [(''default'', YInt 1)]])
      else if path = ''/plugins/ob/3.0.0/file_map.yaml''
      then Loaded (YList [YDict [(''src_path'', YStr ''bin/observer'')],
                          YDict [(''target_path'', YStr ''etc'')]])
      else Missing)"

section \<open>Properties of the version ordering\<close>














text \<open>Digit strings of the same length compare as the numbers they denote.\<close>

lemma foldl_dec_shift:
  "foldl decimal_step n cs = n * 10 ^ length cs + foldl decimal_step 0 cs"
proof (induction cs arbitrary: n)
  case Nil
  then show ?case by simp
next
  case (Cons c cs)
  have "foldl decimal_step n (c # cs) = foldl decimal_step (10 * n + digit_value c) cs"
    by (simp add: decimal_step_def)
  also have "\<dots> = (10 * n + digit_value c) * 10 ^ length cs + foldl decimal_step 0 cs"
    by (rule Cons.IH)
  also have "\<dots> = n * 10 ^ length (c # cs) + (digit_value c * 10 ^ length cs + foldl decimal_step 0 cs)"
    by (simp add: algebra_simps)
  also have "digit_value c * 10 ^ length cs + foldl decimal_step 0 cs = foldl decimal_step (digit_value c) cs"
    by (rule Cons.IH [symmetric])
  also have "foldl decimal_step (digit_value c) cs = foldl decimal_step 0 (c # cs)"
    by (simp add: decimal_step_def)
  finally show ?case .
qed

lemma spec_token_value_Cons:
  "spec_token_value (c # cs) = digit_value c * 10 ^ length cs + spec_token_value cs"
  unfolding spec_token_value_def using foldl_dec_shift [of "digit_value c" cs]
  by (simp add: decimal_step_def)

lemma spec_token_value_Nil: "spec_token_value [] = 0"
  by (simp add: spec_token_value_def)

lemma digit_value_lt_10: "is_digit c \<Longrightarrow> digit_value c < 10"
  by (auto simp: is_digit_def digit_value_def)

lemma spec_token_value_bound:
  "list_all is_digit cs \<Longrightarrow> spec_token_value cs < 10 ^ length cs"
proof (induction cs)
  case Nil
  then show ?case by (simp add: spec_token_value_Nil)
next
  case (Cons c cs)
  then have d: "digit_value c \<le> 9" and r: "spec_token_value cs < 10 ^ length cs"
    using digit_value_lt_10 [of c] by auto
  have "digit_value c * 10 ^ length cs \<le> 9 * 10 ^ length cs"
    using d by (rule mult_le_mono1)
  moreover have "(10::nat) ^ length (c # cs) = 9 * 10 ^ length cs + 10 ^ length cs"
    by simp
  ultimately show ?case
    using r unfolding spec_token_value_Cons by linarith
qed

lemma digit_value_inj:
  "is_digit c \<Longrightarrow> is_digit d \<Longrightarrow> (digit_value c = digit_value d) = (c = d)"
proof -
  assume "is_digit c" "is_digit d"
  then have lo: "48 \<le> (of_char c :: nat)" "48 \<le> (of_char d :: nat)"
    by (simp_all add: is_digit_def)
  have "c = d" if "digit_value c = digit_value d"
  proof -
    have "(of_char c :: nat) = of_char d"
      using that lo unfolding digit_value_def by linarith
    then show ?thesis by (simp only: of_char_eq_iff)
  qed
  then show ?thesis by auto
qed

lemma digit_value_lt:
  "is_digit c \<Longrightarrow> is_digit d \<Longrightarrow> (digit_value c < digit_value d) = char_lt c d"
  by (auto simp: is_digit_def digit_value_def char_lt_def)

lemma lead_digit_decides:
  fixes p q r s k :: nat
  assumes "p < q" "r < k"
  shows "p * k + r < q * k + s"
proof -
  have "p * k + r < p * k + k" using assms by simp
  also have "\<dots> = (p + 1) * k" by simp
  also have "\<dots> \<le> q * k" using assms(1) by (intro mult_le_mono1) simp
  finally show ?thesis by simp
qed

lemma digits_lt_iff:
  "list_all is_digit a \<Longrightarrow> list_all is_digit b \<Longrightarrow> length a = length b \<Longrightarrow>
     str_lt a b = (spec_token_value a < spec_token_value b)"
proof (induction a arbitrary: b)
  case Nil
  then show ?case by (simp add: str_lt_def)
next
  case (Cons c cs)
  then obtain d ds where b: "b = d # ds" by (cases b) auto
  with Cons.prems have dg: "is_digit c" "is_digit d" "list_all is_digit cs" "list_all is_digit ds"
    and len: "length cs = length ds" by auto
  show ?case
  proof (cases "c = d")
    case True
    then show ?thesis
      using Cons.IH [OF dg(3) dg(4) len] len
      by (simp add: b str_lt_def spec_token_value_Cons)
  next
    case False
    then have ne: "digit_value c \<noteq> digit_value d"
      using digit_value_inj [OF dg(1) dg(2)] by simp
    show ?thesis
    proof (cases "char_lt c d")
      case True
      then have "digit_value c < digit_value d" using digit_value_lt [OF dg(1) dg(2)] by simp
      then have "spec_token_value (c # cs) < spec_token_value (d # ds)"
        unfolding spec_token_value_Cons len [symmetric]
        using spec_token_value_bound [OF dg(3)] by (intro lead_digit_decides)
      then show ?thesis using True False by (simp add: b str_lt_def)
    next
      case nlt: False
      then have "digit_value d < digit_value c"
        using digit_value_lt [OF dg(1) dg(2)] ne by simp
      then have "spec_token_value (d # ds) < spec_token_value (c # cs)"
        unfolding spec_token_value_Cons len
        using spec_token_value_bound [OF dg(4)] by (intro lead_digit_decides)
      then show ?thesis using nlt False by (simp add: b str_lt_def)
    qed
  qed
qed

lemma digits_eq_iff:
  "list_all is_digit a \<Longrightarrow> list_all is_digit b \<Longrightarrow> length a = length b \<Longrightarrow>
     (a = b) = (spec_token_value a = spec_token_value b)"
proof -
  assume h: "list_all is_digit a" "list_all is_digit b" "length a = length b"
  have irr: "\<not> str_lt x x" for x
    by (induction x) (simp_all add: str_lt_def)
  have tot: "a \<noteq> b \<Longrightarrow> str_lt a b \<or> str_lt b a"
    using h(3)
  proof (induction a arbitrary: b)
    case Nil then show ?case by simp
  next
    case (Cons c cs)
    then obtain d ds where b: "b = d # ds" by (cases b) auto
    have "char_lt c d \<or> char_lt d c" if "c \<noteq> d"
    proof -
      have "(of_char c :: nat) \<noteq> of_char d" using that by (simp only: of_char_eq_iff) simp
      then show ?thesis unfolding char_lt_def by linarith
    qed
    then show ?case using Cons.IH [of ds] Cons.prems b by (auto simp: str_lt_def)
  qed
  show ?thesis
    using digits_lt_iff [OF h] digits_lt_iff [OF h(2) h(1) h(3) [symmetric]] tot irr
    by (metis less_irrefl)
qed

lemma same_widths_lt:
  "same_widths v w \<Longrightarrow> version_lt v w = spec_version_lt v w"
proof (induction v w rule: same_widths.induct)
  case (1 a v b w)
  then show ?case
    using digits_lt_iff [of a b] digits_eq_iff [of a b]
    by (simp add: version_lt_def spec_version_lt_def)
next
  case (2 w)
  then show ?case by (cases w) (simp_all add: version_lt_def spec_version_lt_def)
next
  case (3 a v)
  then show ?case by (simp add: version_lt_def spec_version_lt_def)
qed

lemma same_widths_eq:
  "same_widths v w \<Longrightarrow> (v = w) = (map spec_token_value v = map spec_token_value w)"
proof (induction v w rule: same_widths.induct)
  case (1 a v b w)
  then show ?case
    using digits_eq_iff [of a b] by simp
next
  case (2 w)
  then show ?case by auto
next
  case (3 a v)
  then show ?case by auto
qed

section \<open>Properties of the resolution\<close>

lemma best_scan_found:
  "find (\<lambda>p. version p = v) ps = Some p \<Longrightarrow> best_scan v acc ps = Inl p"
  by (induction ps arbitrary: acc) (auto simp: version_eq_def split: if_splits)






lemma example_discovered:
  "fst (get_plugins example_glob (example_loader io))
     = Inr [example_plugin ''2.0.0'', example_plugin ''2.1.0'', example_plugin ''3.0.0'']"
  by (simp add: get_plugins_def example_glob_def example_loader_def example_plugin_def
      flag_pattern_def path_split_def rstrip_slash_def Plugin_init_def parse_version_def py_split_def Let_def)

lemma example_init: "ComponentPluginLoader_init ''/plugins/ob'' (Some PARAM) io = Inr (example_loader io)"
  by (simp add: ComponentPluginLoader_init_def example_loader_def path_split_def)










section \<open>The claims on version resolution\<close>

text \<open>
  Claim C1, as the code has it. The ordering used by the resolution compares the tokens
  as character strings. Whenever the tokens compared at each position are digit strings
  of the same length, the equality test and the order coincide with the comparison of
  the tokens as integers.
\<close>

theorem version_order_agrees_on_equal_widths:
  assumes "same_widths v w"
  shows "version_eq v w = (map spec_token_value v = map spec_token_value w)
       \<and> version_lt v w = spec_version_lt v w"
  using assms same_widths_eq [of v w] same_widths_lt [of v w] by (simp add: version_eq_def)

theorem version_order_agrees_on_equal_widths_witness:
  "same_widths (parse_version ''3.09'') (parse_version ''3.10'')
   \<and> version_lt (parse_version ''3.09'') (parse_version ''3.10'')
   \<and> spec_version_lt (parse_version ''3.09'') (parse_version ''3.10'')"
proof -
  have w: "same_widths (parse_version ''3.09'') (parse_version ''3.10'')"
    by (simp add: parse_version_def py_split_def is_digit_def)
  have "version_lt (parse_version ''3.09'') (parse_version ''3.10'')"
    by (simp add: parse_version_def py_split_def version_lt_def str_lt_def char_lt_def)
  with w version_order_agrees_on_equal_widths [OF w] show ?thesis by simp
qed

text \<open>
  Claim C1 as stated fails: the tokens are not compared as integers. Version 3.9 is not
  below version 3.10 for the resolver, it is above it, while the integer comparison of
  the specification puts it below.
\<close>

theorem version_order_integer_counterexample:
  "\<not> version_lt (parse_version ''3.9'') (parse_version ''3.10'')
   \<and> version_lt (parse_version ''3.10'') (parse_version ''3.9'')
   \<and> spec_version_lt (parse_version ''3.9'') (parse_version ''3.10'')"
  by (simp add: parse_version_def py_split_def version_lt_def str_lt_def char_lt_def
      spec_version_lt_def spec_token_value_def decimal_step_def digit_value_def)

text \<open>
  Claim C2. When some discovered plugin has the requested token sequence as its version,
  the resolution returns the first such plugin in discovery order and emits nothing.
\<close>

theorem exact_match_returned:
  assumes "get_plugins glob l = (Inr discovered, l')"
    and "\<exists>p \<in> set discovered. version p = parse_version V"
  shows "\<exists>p. find (\<lambda>p. version p = parse_version V) discovered = Some p
           \<and> get_best_plugin glob l V = (Inr (Some p), [], l')"
proof -
  from assms(2) obtain p where p: "find (\<lambda>p. version p = parse_version V) discovered = Some p"
    by (cases "find (\<lambda>p. version p = parse_version V) discovered") (auto simp: find_None_iff)
  have "best_scan (parse_version V) [] discovered = Inl p"
    using best_scan_found [OF p] .
  then have "get_best_plugin glob l V = (Inr (Some p), [], l')"
    by (simp add: get_best_plugin_def assms(1))
  with p show ?thesis by blast
qed


theorem exact_match_returned_witness:
  "fst (get_plugins example_glob (example_loader (Some example_stdio)))
     = Inr [example_plugin ''2.0.0'', example_plugin ''2.1.0'', example_plugin ''3.0.0'']
   \<and> (\<exists>p \<in> set [example_plugin ''2.0.0'', example_plugin ''2.1.0'', example_plugin ''3.0.0''].
         version p = parse_version ''3.0.0'')
   \<and> fst (get_best_plugin example_glob (example_loader (Some example_stdio)) ''3.0.0'')
       = Inr (Some (example_plugin ''3.0.0''))
   \<and> fst (snd (get_best_plugin example_glob (example_loader (Some example_stdio)) ''3.0.0'')) = []"
proof -
  let ?l = "example_loader (Some example_stdio)"
  let ?d = "[example_plugin ''2.0.0'', example_plugin ''2.1.0'', example_plugin ''3.0.0'']"
  obtain l' where h1: "get_plugins example_glob ?l = (Inr ?d, l')"
    using example_discovered [of "Some example_stdio"] by (metis prod.collapse)
  have h2: "\<exists>p \<in> set ?d. version p = parse_version ''3.0.0''"
    by (simp add: example_plugin_def)
  have f: "find (\<lambda>p. version p = parse_version ''3.0.0'') ?d = Some (example_plugin ''3.0.0'')"
    by (simp add: example_plugin_def parse_version_def py_split_def)
  from exact_match_returned [OF h1 h2] f h2 example_discovered [of "Some example_stdio"]
  show ?thesis by auto
qed





section \<open>The claims on the manager and the envelope\<close>

text \<open>
  Claim C9. A plugin kind that is not a key of the manager's loader table gets
  \<^verbatim>\<open>None\<close>: nothing is raised, nothing is emitted and the manager, with both its
  loader caches, is unchanged. After \<^verbatim>\<open>PluginManager.__init__\<close> the script kind
  \<^verbatim>\<open>PY_SCRIPT\<close> is such a kind, and so is every value that is not a member of
  \<^verbatim>\<open>PluginType\<close>.
\<close>

theorem unregistered_kind_gets_none:
  "(registered_loaders m kind = None \<longrightarrow>
      PluginManager_get_best_plugin glob m kind cn V = (Inr None, [], m))
   \<and> registered_loaders (PluginManager_init home_path io) (Member PY_SCRIPT) = None
   \<and> registered_loaders (PluginManager_init home_path io) (NonMember other) = None"
  by (cases kind)
    (simp_all add: PluginManager_get_best_plugin_def PluginManager_init_def)

theorem unregistered_kind_gets_none_witness:
  "registered_loaders (PluginManager_init ''/home/obd'' None) (Member PY_SCRIPT) = None
   \<and> PluginManager_get_best_plugin example_glob (PluginManager_init ''/home/obd'' None)
        (Member PY_SCRIPT) ''ob'' ''3.0.0''
       = (Inr None, [], PluginManager_init ''/home/obd'' None)"
  using unregistered_kind_gets_none
    [of "PluginManager_init ''/home/obd'' None" "Member PY_SCRIPT" example_glob "''ob''" "''3.0.0''"
        "''/home/obd''" None]
  by simp

text \<open>
  Claim C10. \<^verbatim>\<open>get_return(key)\<close> never raises: it returns the value stored under
  the key in the named payload when the key is present, and \<^verbatim>\<open>None\<close> when it is
  absent.
\<close>

theorem get_return_present_or_none:
  "(return_kwargs r key = Some v \<longrightarrow> PluginReturn_get_return r key = Inr v)
   \<and> (return_kwargs r key = None \<longrightarrow> PluginReturn_get_return r key = Inr PNone)"
  by (simp add: PluginReturn_get_return_def dict_getitem_def)

theorem get_return_present_or_none_witness:
  "return_kwargs (PluginReturn_return_true [] [''x'' \<mapsto> PInt 1] PluginReturn_new) ''x'' = Some (PInt 1)
   \<and> PluginReturn_get_return (PluginReturn_return_true [] [''x'' \<mapsto> PInt 1] PluginReturn_new) ''x''
       = Inr (PInt 1)
   \<and> return_kwargs (PluginReturn_return_true [] [''x'' \<mapsto> PInt 1] PluginReturn_new) ''y'' = None
   \<and> PluginReturn_get_return (PluginReturn_return_true [] [''x'' \<mapsto> PInt 1] PluginReturn_new) ''y''
       = Inr PNone"
proof -
  let ?r = "PluginReturn_return_true [] [''x'' \<mapsto> PInt 1] PluginReturn_new"
  have a: "return_kwargs ?r ''x'' = Some (PInt 1)" and b: "return_kwargs ?r ''y'' = None"
    by (simp_all add: PluginReturn_return_true_def set_kwargs_def set_args_def set_return_def)
  from a b get_return_present_or_none [of ?r "''x''" "PInt 1"]
    get_return_present_or_none [of ?r "''y''" "PInt 1"]
  show ?thesis by simp
qed

section \<open>Properties of the script invocation\<close>

lemma before_do_import:
  "before_do self dl components clients cluster_config cmd options io
     = ((fst (PyScriptPlugin_import self dl))
          \<lparr>context := Some (PluginContext_init components
             (map (\<lambda>(server, c). (server, \<lparr>client = c, client_stdio = SubIO_init io\<rparr>)) clients)
             cluster_config cmd options (SubIO_init io))\<rparr>,
        snd (PyScriptPlugin_import self dl))"
  by (simp add: before_do_def Let_def split: prod.splits)

lemma before_do_context:
  "before_do self dl components clients cluster_config cmd options io = (self1, dl1) \<Longrightarrow>
     context self1 = Some (PluginContext_init components
        (map (\<lambda>(server, c). (server, \<lparr>client = c, client_stdio = SubIO_init io\<rparr>)) clients)
        cluster_config cmd options (SubIO_init io))"
  by (auto simp: before_do_import)

lemma before_do_fresh_envelope:
  "before_do self dl components clients cluster_config cmd options io = (self1, dl1) \<Longrightarrow>
     context self1 = Some c0 \<Longrightarrow>
     ctx_return c0 = \<lparr>return_value = PBool False, return_args = [], return_kwargs = Map.empty\<rparr>"
  by (drule before_do_context)
    (auto simp: PluginContext_init_def PluginReturn_new_def PluginReturn_init_def)

lemma import_static:
  "PyScriptPlugin_import self dl = (self0, dl0) \<Longrightarrow>
     component_name self0 = component_name self \<and> version self0 = version self
     \<and> script_type_name self0 = script_type_name self
     \<and> PLUGIN_COMPONENT_NAME self0 = PLUGIN_COMPONENT_NAME self
     \<and> libs_path self0 = libs_path self \<and> context self0 = context self"
  by (auto simp: PyScriptPlugin_import_def split: option.splits prod.splits)

lemma before_do_static:
  "before_do self dl components clients cluster_config cmd options io = (self1, dl1) \<Longrightarrow>
     component_name self1 = component_name self \<and> version self1 = version self
     \<and> script_type_name self1 = script_type_name self
     \<and> PLUGIN_COMPONENT_NAME self1 = PLUGIN_COMPONENT_NAME self
     \<and> libs_path self1 = libs_path self"
  by (auto simp: before_do_def Let_def split: prod.splits dest: import_static)

lemma entry_point_Some:
  "module self = Some r \<Longrightarrow> module_objects dl r = Some m \<Longrightarrow>
     module_functions m method_name = Some method \<Longrightarrow>
     entry_point method_name self dl = Some (r, m, method)"
  by (simp add: entry_point_def)

lemma entry_point_no_method:
  "module self = Some r \<Longrightarrow> module_objects dl r = Some m \<Longrightarrow>
     module_functions m method_name = None \<Longrightarrow>
     entry_point method_name self dl = None"
  by (simp add: entry_point_def)

lemma entry_point_no_module:
  "module self = None \<Longrightarrow> entry_point method_name self dl = None"
  by (simp add: entry_point_def)

text \<open>The invocation, path by path.\<close>

lemma exec_no_entry:
  assumes "before_do self dl components clients cluster_config cmd options io = (self1, dl1)"
    and "entry_point method_name self1 dl1 = None"
    and "context self1 = Some c0"
  shows "pyScriptPluginExec method_name self dl components clients cluster_config cmd options io arg kwargs
       = \<lparr>outcome = Inr (ctx_return c0), emitted_log = [], called = [],
          plugin_after = self1\<lparr>context := None\<rparr>,
          loading_after = PyScriptPlugin_export self1 dl1\<rparr>"
  using assms
  by (simp add: pyScriptPluginExec_def Let_def after_do_def PluginContext_get_return_def)


lemma exec_returns:
  assumes "before_do self dl components clients cluster_config cmd options io = (self1, dl1)"
    and "entry_point method_name self1 dl1 = Some (r, m, method)"
    and "context self1 = Some c0"
    and "method (module_globals m) c0 arg kwargs = (g, c, None)"
  shows "pyScriptPluginExec method_name self dl components clients cluster_config cmd options io arg kwargs
       = \<lparr>outcome = Inr (ctx_return c), emitted_log = [], called = [method_name],
          plugin_after = self1\<lparr>context := None\<rparr>,
          loading_after = PyScriptPlugin_export self1
            (dl1\<lparr>module_objects := (module_objects dl1)(r \<mapsto> m\<lparr>module_globals := g\<rparr>)\<rparr>)\<rparr>"
  using assms
  by (simp add: pyScriptPluginExec_def Let_def after_do_def PluginContext_get_return_def
      PyScriptPlugin_export_def split: option.splits)

lemma exec_caught:
  assumes "before_do self dl components clients cluster_config cmd options io = (self1, dl1)"
    and "entry_point method_name self1 dl1 = Some (r, m, method)"
    and "context self1 = Some c0"
    and "method (module_globals m) c0 arg kwargs = (g, c, Some e)"
    and "is_Exception e"
    and "log_runtime_error io (Plugin_str (script_type_name self) self) e = Inr logged"
  shows "pyScriptPluginExec method_name self dl components clients cluster_config cmd options io arg kwargs
       = \<lparr>outcome = Inr (ctx_return c), emitted_log = logged, called = [method_name],
          plugin_after = self1\<lparr>context := None\<rparr>,
          loading_after = PyScriptPlugin_export self1
            (dl1\<lparr>module_objects := (module_objects dl1)(r \<mapsto> m\<lparr>module_globals := g\<rparr>)\<rparr>)\<rparr>"
proof -
  have st: "Plugin_str (script_type_name self1) self1 = Plugin_str (script_type_name self) self"
    using before_do_static [OF assms(1)] by (simp add: Plugin_str_def)
  show ?thesis
    using assms st
    by (simp add: pyScriptPluginExec_def Let_def after_do_def PluginContext_get_return_def
        PyScriptPlugin_export_def split: option.splits)
qed



text \<open>The example plugin, loaded.\<close>

lemma example_script_init:
  "PyScriptPlugin_init ''init'' ''obproxy'' ''/plugins/obproxy/3.1.0'' ''3.1.0'' = Inr example_script"
  by (simp add: PyScriptPlugin_init_def Plugin_init_def example_script_def parse_version_def
      py_split_def plugin.defs PyScriptPlugin.defs py_upper_def upper_char_def)

lemma example_before_eq:
  "example_before m io =
     (example_script\<lparr>context := Some (example_context io), module := Some 0\<rparr>,
      (example_loading m)
        \<lparr>LIBS_PATH := [''/plugins/obproxy/3.1.0''], MODULES := [''init'' \<mapsto> 0],
         module_objects := [0 \<mapsto> m], next_ref := Suc 0\<rparr>)"
  by (simp add: example_before_def before_do_def PyScriptPlugin_import_def import_module_def
      add_libs_path_def example_script_def example_loading_def example_context_def Let_def)

lemma example_before_pair: "before_do example_script (example_loading m) ''components''
     [(''server1'', ''client1'')] ''cluster_config'' ''cmd'' ''options'' io
   = (fst (example_before m io), snd (example_before m io))"
  by (simp add: example_before_def)

lemma example_before_module: "module (fst (example_before m io)) = Some 0"
  by (simp add: example_before_eq)

lemma example_before_object: "module_objects (snd (example_before m io)) 0 = Some m"
  by (simp add: example_before_eq)

lemma example_before_context: "context (fst (example_before m io)) = Some (example_context io)"
  by (simp add: example_before_eq)



lemma return_true_envelope_eq:
  "ctx_return (PluginContext_return_true args kw c)
     = \<lparr>return_value = PBool True, return_args = args, return_kwargs = kw\<rparr>"
  by (simp add: PluginContext_return_true_def PluginReturn_return_true_def set_kwargs_def
      set_args_def set_return_def)

section \<open>The claims on script plugins\<close>

text \<open>
  Claim C7. When the loaded module defines no function of the invoked name, no function
  of the module is called and the invocation returns the default envelope: success flag
  false, no positional and no named payload.
\<close>

theorem missing_entry_function_gives_default:
  assumes "before_do self dl components clients cluster_config cmd options io = (self1, dl1)"
    and "module self1 = Some r"
    and "module_objects dl1 r = Some m"
    and "module_functions m method_name = None"
  shows "called (pyScriptPluginExec method_name self dl components clients cluster_config cmd
                   options io arg kwargs) = []
       \<and> outcome (pyScriptPluginExec method_name self dl components clients cluster_config cmd
                    options io arg kwargs)
           = Inr \<lparr>return_value = PBool False, return_args = [], return_kwargs = Map.empty\<rparr>
       \<and> \<not> PluginReturn_bool \<lparr>return_value = PBool False, return_args = [], return_kwargs = Map.empty\<rparr>"
proof -
  obtain c0 where c0: "context self1 = Some c0"
    using before_do_context [OF assms(1)] by blast
  have env: "ctx_return c0 = \<lparr>return_value = PBool False, return_args = [], return_kwargs = Map.empty\<rparr>"
    using before_do_fresh_envelope [OF assms(1) c0] .
  have "entry_point method_name self1 dl1 = None"
    using entry_point_no_method [OF assms(2,3,4)] .
  from exec_no_entry [OF assms(1) this c0, of arg kwargs] env show ?thesis
    by (simp add: PluginReturn_bool_def)
qed

theorem missing_entry_function_gives_default_witness:
  "module (fst (example_before empty_module None)) = Some 0
   \<and> module_objects (snd (example_before empty_module None)) 0 = Some empty_module
   \<and> module_functions empty_module ''init'' = None
   \<and> called (example_invocation empty_module None []) = []
   \<and> outcome (example_invocation empty_module None [])
       = Inr \<lparr>return_value = PBool False, return_args = [], return_kwargs = Map.empty\<rparr>"
proof -
  have nf: "module_functions empty_module ''init'' = None"
    by (simp add: empty_module_def)
  from missing_entry_function_gives_default
    [OF example_before_pair [of empty_module None] example_before_module [of empty_module None]
        example_before_object [of empty_module None] nf, of "[]" Map.empty]
    example_before_module [of empty_module None] example_before_object [of empty_module None] nf
  show ?thesis by (simp add: example_invocation_def)
qed

text \<open>
  Claim C6. When the entry function calls \<^verbatim>\<open>return_true(a, b, x=1)\<close> on the context
  as its last word on the envelope, and ends by returning, or by an exception that the
  wrapper catches and logs without the logging raising, the invocation returns an
  envelope with success flag true, positional payload \<open>(a, b)\<close> and named payload
  \<open>{x: 1}\<close>.
\<close>

theorem return_true_envelope:
  assumes "before_do self dl components clients cluster_config cmd options io = (self1, dl1)"
    and "context self1 = Some c0"
    and "module self1 = Some r"
    and "module_objects dl1 r = Some m"
    and "module_functions m method_name = Some method"
    and "method (module_globals m) c0 arg kwargs
           = (g, PluginContext_return_true [a, b] [''x'' \<mapsto> PInt 1] c, ended)"
    and "\<And>e e'. ended = Some e \<Longrightarrow>
           is_Exception e
           \<and> log_runtime_error io (Plugin_str (script_type_name self) self) e \<noteq> Inl e'"
  shows "outcome (pyScriptPluginExec method_name self dl components clients cluster_config cmd
                    options io arg kwargs)
           = Inr \<lparr>return_value = PBool True, return_args = [a, b],
                  return_kwargs = [''x'' \<mapsto> PInt 1]\<rparr>
       \<and> PluginReturn_bool \<lparr>return_value = PBool True, return_args = [a, b],
                  return_kwargs = [''x'' \<mapsto> PInt 1]\<rparr>"
proof -
  have ep: "entry_point method_name self1 dl1 = Some (r, m, method)"
    using entry_point_Some [OF assms(3,4,5)] .
  show ?thesis
  proof (cases ended)
    case None
    then show ?thesis
      using exec_returns [OF assms(1) ep assms(2), of arg kwargs g] assms(6)
      by (simp add: PluginReturn_bool_def return_true_envelope_eq)
  next
    case (Some e)
    then have ex: "is_Exception e" using assms(7) by simp
    obtain logged where lg: "log_runtime_error io (Plugin_str (script_type_name self) self) e = Inr logged"
      using assms(7) [OF Some]
      by (cases "log_runtime_error io (Plugin_str (script_type_name self) self) e") auto
    from assms(6) Some
    have call: "method (module_globals m) c0 arg kwargs
        = (g, PluginContext_return_true [a, b] [''x'' \<mapsto> PInt 1] c, Some e)" by simp
    show ?thesis
      using exec_caught [OF assms(1) ep assms(2) call ex lg]
      by (simp add: PluginReturn_bool_def return_true_envelope_eq)
  qed
qed

theorem return_true_envelope_witness:
  "context (fst (example_before (example_module (returns_true_with (PStr ''a'') (PInt 2))) None))
     = Some (example_context None)
   \<and> module (fst (example_before (example_module (returns_true_with (PStr ''a'') (PInt 2))) None))
       = Some 0
   \<and> module_objects (snd (example_before (example_module (returns_true_with (PStr ''a'') (PInt 2))) None)) 0
       = Some (example_module (returns_true_with (PStr ''a'') (PInt 2)))
   \<and> module_functions (example_module (returns_true_with (PStr ''a'') (PInt 2))) ''init''
       = Some (returns_true_with (PStr ''a'') (PInt 2))
   \<and> outcome (example_invocation (example_module (returns_true_with (PStr ''a'') (PInt 2))) None [])
       = Inr \<lparr>return_value = PBool True, return_args = [PStr ''a'', PInt 2],
              return_kwargs = [''x'' \<mapsto> PInt 1]\<rparr>"
proof -
  let ?f = "returns_true_with (PStr ''a'') (PInt 2)"
  let ?m = "example_module ?f"
  have fn: "module_functions ?m ''init'' = Some ?f"
    by (simp add: example_module_def)
  have call: "?f (module_globals ?m) (example_context None) [] Map.empty
      = (module_globals ?m,
         PluginContext_return_true [PStr ''a'', PInt 2] [''x'' \<mapsto> PInt 1] (example_context None),
         None)"
    by (simp add: returns_true_with_def)
  have ok: "is_Exception e
      \<and> log_runtime_error None (Plugin_str (script_type_name example_script) example_script) e \<noteq> Inl e'"
    if "(None :: py_exception option) = Some e" for e e'
    using that by simp
  from return_true_envelope
    [OF example_before_pair [of ?m None] example_before_context [of ?m None]
        example_before_module [of ?m None] example_before_object [of ?m None] fn call ok]
    example_before_context [of ?m None] example_before_module [of ?m None]
    example_before_object [of ?m None] fn
  show ?thesis by (simp add: example_invocation_def)
qed






section \<open>Sequential invocations\<close>

















section \<open>Properties of the manifest loaders\<close>

lemma example_param_plugin_init:
  "ParamPlugin_init ''ob'' ''/plugins/ob/3.0.0'' ''3.0.0'' = Inr example_param_plugin"
  by (simp add: ParamPlugin_init_def Plugin_init_def example_param_plugin_def parse_version_def
      py_split_def plugin.defs ParamPlugin.defs path_join_def)

lemma example_install_plugin_init:
  "InstallPlugin_init ''ob'' ''/plugins/ob/3.0.0'' ''3.0.0'' = Inr example_install_plugin"
  by (simp add: InstallPlugin_init_def Plugin_init_def example_install_plugin_def parse_version_def
      py_split_def plugin.defs InstallPlugin.defs path_join_def)

text \<open>The loops stop at the first record that is not well formed and keep what the
  records before it stored.\<close>

lemma params_loop_prefix:
  "snd (params_loop d confs) = snd (params_loop d (takeWhile param_record_ok confs))
   \<and> fst (params_loop d (takeWhile param_record_ok confs)) = None"
proof (induction confs arbitrary: d)
  case Nil
  then show ?case by simp
next
  case (Cons conf rest)
  show ?case
  proof (cases "param_record_ok conf")
    case True
    then obtain n where n: "yaml_getitem conf ''name'' = Inr n" "hashable n"
      by (auto simp: param_record_ok_def split: sum.splits)
    with True Cons.IH [of "dict_set d n (ConfigItem_of n conf)"] show ?thesis by simp
  next
    case False
    then show ?thesis by (auto simp: param_record_ok_def split: sum.splits)
  qed
qed

lemma params_loop_raises:
  "fst (params_loop d confs) = None \<longleftrightarrow> list_all param_record_ok confs"
proof (induction confs arbitrary: d)
  case Nil
  then show ?case by simp
next
  case (Cons conf rest)
  show ?case
    using Cons.IH by (auto simp: param_record_ok_def split: sum.splits)
qed

lemma file_map_loop_prefix:
  "snd (file_map_loop d records) = snd (file_map_loop d (takeWhile file_record_ok records))
   \<and> fst (file_map_loop d (takeWhile file_record_ok records)) = None"
proof (induction records arbitrary: d)
  case Nil
  then show ?case by simp
next
  case (Cons data rest)
  show ?case
  proof (cases "file_record_ok data")
    case True
    then obtain k0 k where k: "yaml_getitem data ''src_path'' = Inr k0" "normalize_src_path k0 = Inr k"
      by (auto simp: file_record_ok_def split: sum.splits)
    with True Cons.IH show ?thesis by simp
  next
    case False
    then show ?thesis by (auto simp: file_record_ok_def split: sum.splits)
  qed
qed

lemma file_map_loop_raises:
  "fst (file_map_loop d records) = None \<longleftrightarrow> list_all file_record_ok records"
proof (induction records arbitrary: d)
  case Nil
  then show ?case by simp
next
  case (Cons data rest)
  show ?case
    using Cons.IH by (auto simp: file_record_ok_def split: sum.splits)
qed

text \<open>A document that is not a list gives no entry: either it cannot be iterated, or its
  first item is a key or a character, not a record.\<close>

lemma params_try_not_a_list:
  "(\<And>confs. y \<noteq> YList confs) \<Longrightarrow> snd (params_try (Loaded y)) = []"
proof (cases y)
  case (YDict d)
  then show ?thesis by (cases d) (auto simp: params_try_def)
next
  case (YStr s)
  then show ?thesis by (cases s) (auto simp: params_try_def)
qed (auto simp: params_try_def)

lemma file_map_try_not_a_list:
  "(\<And>records. y \<noteq> YList records) \<Longrightarrow> snd (file_map_try (Loaded y)) = []"
proof (cases y)
  case (YDict d)
  then show ?thesis by (cases d) (auto simp: file_map_try_def)
next
  case (YStr s)
  then show ?thesis by (cases s) (auto simp: file_map_try_def)
qed (auto simp: file_map_try_def)

lemma params_try_entries:
  "snd (params_try manifest) =
     (case manifest of
        Loaded (YList confs) \<Rightarrow> snd (params_loop [] (takeWhile param_record_ok confs))
      | _ \<Rightarrow> [])"
proof (cases manifest)
  case (Loaded y)
  show ?thesis
  proof (cases "\<exists>confs. y = YList confs")
    case True
    then obtain confs where "y = YList confs" by blast
    then show ?thesis using params_loop_prefix [of "[]" confs] by (simp add: Loaded params_try_def)
  next
    case False
    then have "snd (params_try (Loaded y)) = []" by (intro params_try_not_a_list) blast
    with False show ?thesis by (cases y) (simp_all add: Loaded)
  qed
qed (simp_all add: params_try_def)

lemma file_map_try_entries:
  "snd (file_map_try manifest) =
     (case manifest of
        Loaded (YList records) \<Rightarrow> snd (file_map_loop [] (takeWhile file_record_ok records))
      | _ \<Rightarrow> [])"
proof (cases manifest)
  case (Loaded y)
  show ?thesis
  proof (cases "\<exists>records. y = YList records")
    case True
    then obtain records where "y = YList records" by blast
    then show ?thesis using file_map_loop_prefix [of "[]" records] by (simp add: Loaded file_map_try_def)
  next
    case False
    then have "snd (file_map_try (Loaded y)) = []" by (intro file_map_try_not_a_list) blast
    with False show ?thesis by (cases y) (simp_all add: Loaded)
  qed
qed (simp_all add: file_map_try_def)


section \<open>The claim on manifests\<close>

text \<open>
  Claim C5, as the code has it. The first access to the payload of a parameter plugin
  or of an install plugin raises nothing, whatever the manifest. It returns the empty
  mapping when the file is missing, when the parser fails and when the document is not
  a list; on a list it returns the entries of the records that come before the first
  record that is not well formed, so the empty mapping when the first record is the
  bad one.
\<close>

theorem manifest_failure_swallowed:
  assumes "src_data p = None"
    and "file_map_cache q = None"
  shows "fst (params fs p)
           = Inr (case fs (def_param_yaml_path p) of
                    Loaded (YList confs) \<Rightarrow> snd (params_loop [] (takeWhile param_record_ok confs))
                  | _ \<Rightarrow> [])
       \<and> fst (file_map fs q)
           = Inr (case fs (file_map_path q) of
                    Loaded (YList records) \<Rightarrow>
                      snd (file_map_loop [] (takeWhile file_record_ok records))
                  | _ \<Rightarrow> [])"
proof -
  have "fst (params fs p) = Inr (snd (params_try (fs (def_param_yaml_path p))))"
    using assms(1) by (simp add: params_def split: prod.splits)
  moreover have "fst (file_map fs q) = Inr (snd (file_map_try (fs (file_map_path q))))"
    using assms(2) by (simp add: file_map_def split: prod.splits)
  ultimately show ?thesis
    by (simp only: params_try_entries file_map_try_entries)
qed

lemma example_manifest_reads:
  "example_manifests (def_param_yaml_path example_param_plugin)
     = Loaded (YList [YDict [(''name'', YStr ''port''), (''default'', YInt 2881)],
                      YDict [(''default'', YInt 1)]])"
  "example_manifests (file_map_path example_install_plugin)
     = Loaded (YList [YDict [(''src_path'', YStr ''bin/observer'')],
                      YDict [(''target_path'', YStr ''etc'')]])"
  by (simp_all add: example_manifests_def example_param_plugin_def example_install_plugin_def)

lemma example_param_entries:
  "snd (params_loop [] (takeWhile param_record_ok
          [YDict [(''name'', YStr ''port''), (''default'', YInt 2881)], YDict [(''default'', YInt 1)]]))
     = [(YStr ''port'',
         \<lparr>name = YStr ''port'', default_value = YInt 2881, require = YBool False,
          need_restart = YBool False, need_redeploy = YBool False\<rparr>)]"
  by (simp add: param_record_ok_def ConfigItem_of_def get_value_from_dict_def)

lemma example_file_entries:
  "snd (file_map_loop [] (takeWhile file_record_ok
          [YDict [(''src_path'', YStr ''bin/observer'')], YDict [(''target_path'', YStr ''etc'')]]))
     = [(YStr ''./bin/observer'',
         \<lparr>src_path = ''./bin/observer'', target_path = YStr ''./bin/observer'',
          file_type = YStr ''file''\<rparr>)]"
  by (simp add: file_record_ok_def FileItem_init_def get_value_from_dict_def path_join_def)

theorem manifest_failure_swallowed_witness:
  "src_data example_param_plugin = None
   \<and> file_map_cache example_install_plugin = None
   \<and> fst (params (\<lambda>path. Missing) example_param_plugin) = Inr []
   \<and> fst (file_map (\<lambda>path. Unparsable) example_install_plugin) = Inr []
   \<and> fst (params example_manifests example_param_plugin)
       = Inr [(YStr ''port'',
               \<lparr>name = YStr ''port'', default_value = YInt 2881, require = YBool False,
                need_restart = YBool False, need_redeploy = YBool False\<rparr>)]
   \<and> fst (file_map example_manifests example_install_plugin)
       = Inr [(YStr ''./bin/observer'',
               \<lparr>src_path = ''./bin/observer'', target_path = YStr ''./bin/observer'',
                file_type = YStr ''file''\<rparr>)]"
proof -
  have p: "src_data example_param_plugin = None"
    by (simp add: example_param_plugin_def)
  have q: "file_map_cache example_install_plugin = None"
    by (simp add: example_install_plugin_def)
  from manifest_failure_swallowed [OF p q, of "\<lambda>path. Missing"]
  have 1: "fst (params (\<lambda>path. Missing) example_param_plugin) = Inr []" by simp
  from manifest_failure_swallowed [OF p q, of "\<lambda>path. Unparsable"]
  have 2: "fst (file_map (\<lambda>path. Unparsable) example_install_plugin) = Inr []" by simp
  have 34: "fst (params example_manifests example_param_plugin)
       = Inr [(YStr ''port'',
               \<lparr>name = YStr ''port'', default_value = YInt 2881, require = YBool False,
                need_restart = YBool False, need_redeploy = YBool False\<rparr>)]
     \<and> fst (file_map example_manifests example_install_plugin)
       = Inr [(YStr ''./bin/observer'',
               \<lparr>src_path = ''./bin/observer'', target_path = YStr ''./bin/observer'',
                file_type = YStr ''file''\<rparr>)]"
    using manifest_failure_swallowed [OF p q, of example_manifests]
    by (simp only: example_manifest_reads manifest_file.case yaml.case example_param_entries
        example_file_entries)
  then have 3: "fst (params example_manifests example_param_plugin)
       = Inr [(YStr ''port'',
               \<lparr>name = YStr ''port'', default_value = YInt 2881, require = YBool False,
                need_restart = YBool False, need_redeploy = YBool False\<rparr>)]"
    and 4: "fst (file_map example_manifests example_install_plugin)
       = Inr [(YStr ''./bin/observer'',
               \<lparr>src_path = ''./bin/observer'', target_path = YStr ''./bin/observer'',
                file_type = YStr ''file''\<rparr>)]"
    by blast+
  from p q 1 2 3 4 show ?thesis by blast
qed

text \<open>
  Claim C5 as stated fails on a manifest whose second record lacks its required field:
  the body of the \<^verbatim>\<open>try\<close> raises \<^verbatim>\<open>KeyError\<close>, the exception is dropped, and
  the accessor returns the entry of the first record, not an empty mapping.
\<close>

theorem manifest_failure_counterexample:
  "fst (params_try (example_manifests (def_param_yaml_path example_param_plugin)))
     = Some (KeyError ''name'')
   \<and> fst (params example_manifests example_param_plugin)
       = Inr [(YStr ''port'',
               \<lparr>name = YStr ''port'', default_value = YInt 2881, require = YBool False,
                need_restart = YBool False, need_redeploy = YBool False\<rparr>)]
   \<and> fst (file_map_try (example_manifests (file_map_path example_install_plugin)))
       = Some (KeyError ''src_path'')
   \<and> fst (file_map example_manifests example_install_plugin)
       = Inr [(YStr ''./bin/observer'',
               \<lparr>src_path = ''./bin/observer'', target_path = YStr ''./bin/observer'',
                file_type = YStr ''file''\<rparr>)]"
proof -
  have p: "src_data example_param_plugin = None"
    by (simp add: example_param_plugin_def)
  have q: "file_map_cache example_install_plugin = None"
    by (simp add: example_install_plugin_def)
  show ?thesis
    unfolding example_manifest_reads
    by (simp add: params_def file_map_def p q example_manifest_reads params_try_def
        file_map_try_def ConfigItem_of_def FileItem_init_def get_value_from_dict_def path_join_def)
qed

end
